theory Spec2Isabelle
  imports Complex_Main "HOL-Library.Sublist"
begin

section \<open>Bryant Evolution climate entity\<close>

text \<open>
  A shallow embedding of \<^verbatim>\<open>homeassistant/components/bryant_evolution/climate.py\<close>:
  the class \<^verbatim>\<open>BryantEvolutionClimate\<close> with its methods \<^verbatim>\<open>async_update\<close>,
  \<^verbatim>\<open>_read_hvac_mode\<close>, \<^verbatim>\<open>_read_hvac_action\<close>, \<^verbatim>\<open>async_set_hvac_mode\<close>,
  \<^verbatim>\<open>async_set_temperature\<close> and \<^verbatim>\<open>async_set_fan_mode\<close>.

  The entity's attributes are a record. The device client (\<^verbatim>\<open>BryantEvolutionClient\<close>,
  an external library) is a parameter: a record of operations over an arbitrary device
  state. Every awaited client call and every state-write signal is appended to a trace,
  so that the order and the arguments of the calls can be stated. An exception is the
  \<open>Inl\<close> branch of a sum; the attributes assigned before a \<^verbatim>\<open>raise\<close> stay assigned, so
  every method returns its result together with the world it leaves behind.
\<close>

subsection \<open>Strings\<close>

text \<open>
  Mode and fan strings are ASCII text. \<^verbatim>\<open>str.upper\<close> and \<^verbatim>\<open>str.lower\<close> act on the
  letters a-z and A-Z and leave every other character as it is.
\<close>

definition upper_char :: "char \<Rightarrow> char" where
  "upper_char ch =
     (let n = (of_char ch :: nat) in if 97 \<le> n \<and> n \<le> 122 then char_of (n - 32) else ch)"

definition lower_char :: "char \<Rightarrow> char" where
  "lower_char ch =
     (let n = (of_char ch :: nat) in if 65 \<le> n \<and> n \<le> 90 then char_of (n + 32) else ch)"

definition upper :: "string \<Rightarrow> string" where
  "upper s = map upper_char s"

definition lower :: "string \<Rightarrow> string" where
  "lower s = map lower_char s"

text \<open>\<^verbatim>\<open>str(x)\<close> for an optional integer reading: \<^verbatim>\<open>"None"\<close> or the decimal numeral.\<close>

definition digit_char :: "nat \<Rightarrow> char" where
  "digit_char d = char_of (48 + d)"

fun str_nat :: "nat \<Rightarrow> string" where
  "str_nat n = (if n < 10 then [digit_char n] else str_nat (n div 10) @ [digit_char (n mod 10)])"

declare str_nat.simps [simp del]

definition str_int :: "int \<Rightarrow> string" where
  "str_int i = (if i < 0 then CHR ''-'' # str_nat (nat (- i)) else str_nat (nat i))"

definition str_opt :: "int option \<Rightarrow> string" where
  "str_opt x = (case x of None \<Rightarrow> ''None'' | Some i \<Rightarrow> str_int i)"

subsection \<open>Host enumerations\<close>

text \<open>
  Modelled from the spec: the host's enumeration \<^verbatim>\<open>HVACMode\<close> is imported from
  \<^verbatim>\<open>homeassistant.components.climate\<close>, which is not among the sources. The spec names the
  modes heat, cool, heat_cool and off and the device's mode string "auto"; the source also
  uses the member \<^verbatim>\<open>HVACMode.AUTO\<close>. The host's enumeration has two more members, dry and
  fan_only, which the parameter of \<^verbatim>\<open>async_set_hvac_mode\<close> may be and which the source
  treats like every mode other than heat_cool. The members are strings, and \<open>mode_value\<close>
  is the string a member is when it is handed to the device client.
\<close>

datatype HVACMode =
  HVACMode_OFF | HVACMode_HEAT | HVACMode_COOL | HVACMode_HEAT_COOL | HVACMode_AUTO
  | HVACMode_DRY | HVACMode_FAN_ONLY

fun mode_value :: "HVACMode \<Rightarrow> string" where
  "mode_value HVACMode_OFF = ''off''"
| "mode_value HVACMode_HEAT = ''heat''"
| "mode_value HVACMode_COOL = ''cool''"
| "mode_value HVACMode_HEAT_COOL = ''heat_cool''"
| "mode_value HVACMode_AUTO = ''auto''"
| "mode_value HVACMode_DRY = ''dry''"
| "mode_value HVACMode_FAN_ONLY = ''fan_only''"

text \<open>
  Modelled from the spec: the host's enumeration \<^verbatim>\<open>HVACAction\<close>, of which the entity
  produces heating, cooling and off.
\<close>

datatype HVACAction = HVACAction_HEATING | HVACAction_COOLING | HVACAction_OFF

text \<open>The modes the entity declares as supported (\<^verbatim>\<open>_attr_hvac_modes\<close>).\<close>

definition attr_hvac_modes :: "HVACMode list" where
  "attr_hvac_modes = [HVACMode_HEAT, HVACMode_COOL, HVACMode_HEAT_COOL, HVACMode_OFF]"

subsection \<open>Entity state, device client, trace\<close>

record entity =
  attr_current_temperature :: "int option"
  attr_fan_mode :: "string option"
  attr_target_temperature :: "int option"
  attr_target_temperature_high :: "int option"
  attr_target_temperature_low :: "int option"
  attr_hvac_mode :: "HVACMode option"
  attr_hvac_action :: "HVACAction option"

text \<open>
  The client's operations, as the source calls them. Reads return an optional value,
  writes a success flag; each may change the device state \<open>'d\<close>.
\<close>

record 'd client =
  client_read_current_temperature :: "'d \<Rightarrow> int option \<times> 'd"
  client_read_fan_mode :: "'d \<Rightarrow> string option \<times> 'd"
  client_read_hvac_mode :: "'d \<Rightarrow> (string \<times> bool) option \<times> 'd"
  client_read_heating_setpoint :: "'d \<Rightarrow> int option \<times> 'd"
  client_read_cooling_setpoint :: "'d \<Rightarrow> int option \<times> 'd"
  client_set_hvac_mode :: "string \<Rightarrow> 'd \<Rightarrow> bool \<times> 'd"
  client_set_heating_setpoint :: "int \<Rightarrow> 'd \<Rightarrow> bool \<times> 'd"
  client_set_cooling_setpoint :: "int \<Rightarrow> 'd \<Rightarrow> bool \<times> 'd"
  client_set_fan_mode :: "string \<Rightarrow> 'd \<Rightarrow> bool \<times> 'd"

datatype call =
  ReadCurrentTemperature | ReadFanMode | ReadHvacMode | ReadHeatingSetpoint
  | ReadCoolingSetpoint | SetHvacMode string | SetHeatingSetpoint int
  | SetCoolingSetpoint int | SetFanMode string

text \<open>
  \<open>WriteHaState\<close> is the state-write signal to the host (\<^verbatim>\<open>_async_write_ha_state\<close>, and
  \<^verbatim>\<open>async_write_ha_state\<close> in \<^verbatim>\<open>async_set_fan_mode\<close>).
\<close>

datatype event = Call call | WriteHaState

record 'd world =
  ent :: entity
  device :: 'd
  trace :: "event list"

text \<open>\<^verbatim>\<open>await self._client.f(...)\<close>: run the operation on the device and log the call.\<close>

definition invoke :: "call \<Rightarrow> ('d \<Rightarrow> 'a \<times> 'd) \<Rightarrow> 'd world \<Rightarrow> 'a \<times> 'd world" where
  "invoke k f w =
     (let (r, d') = f (device w) in (r, w\<lparr>device := d', trace := trace w @ [Call k]\<rparr>))"

definition write_ha_state :: "'d world \<Rightarrow> 'd world" where
  "write_ha_state w = w\<lparr>trace := trace w @ [WriteHaState]\<rparr>"

subsection \<open>Errors\<close>

text \<open>
  \<^verbatim>\<open>HomeAssistantError(translation_domain=DOMAIN, translation_key=..., translation_placeholders=...)\<close>:
  the translation key and the placeholders; the domain is the same constant everywhere.
  A placeholder is a string or, for \<^verbatim>\<open>mode_and_active\<close>, the tuple the client returned.
\<close>

datatype pyval = PyStr string | PyModeActive string bool

datatype error = HomeAssistantError string "(string \<times> pyval) list"

fun translation_key :: "error \<Rightarrow> string" where
  "translation_key (HomeAssistantError k ph) = k"

fun translation_placeholders :: "error \<Rightarrow> (string \<times> pyval) list" where
  "translation_placeholders (HomeAssistantError k ph) = ph"

text \<open>
  The spec's two error kinds are told apart by the translation key: a DeviceReadError is
  raised by the reading methods, a DeviceWriteError by the mutators.
\<close>

definition DeviceReadError :: "error \<Rightarrow> bool" where
  "DeviceReadError e \<longleftrightarrow>
     translation_key e \<in> set [''failed_to_read_hvac_mode'', ''failed_to_parse_hvac_mode'',
                               ''failed_to_read_hvac_action'']"

definition DeviceWriteError :: "error \<Rightarrow> bool" where
  "DeviceWriteError e \<longleftrightarrow>
     translation_key e \<in> set [''failed_to_set_hvac_mode'', ''failed_to_set_clsp'',
                               ''failed_to_set_htsp'', ''failed_to_set_temp'',
                               ''failed_to_set_fan_mode'']"

subsection \<open>Reading: \<^verbatim>\<open>_read_hvac_mode\<close>, \<^verbatim>\<open>_read_hvac_action\<close>, \<^verbatim>\<open>async_update\<close>\<close>

definition read_hvac_mode :: "'d client \<Rightarrow> 'd world \<Rightarrow> (error + HVACMode) \<times> 'd world" where
  "read_hvac_mode c w =
     (let (mode_and_active, w) = invoke ReadHvacMode (client_read_hvac_mode c) w in
      case mode_and_active of
        None \<Rightarrow> (Inl (HomeAssistantError ''failed_to_read_hvac_mode'' []), w)
      | Some (mode, is_active) \<Rightarrow>
          if upper mode = ''HEAT'' then (Inr HVACMode_HEAT, w)
          else if upper mode = ''COOL'' then (Inr HVACMode_COOL, w)
          else if upper mode = ''AUTO'' then (Inr HVACMode_HEAT_COOL, w)
          else if upper mode = ''OFF'' then (Inr HVACMode_OFF, w)
          else (Inl (HomeAssistantError ''failed_to_parse_hvac_mode''
                       [(''mode'', PyStr mode)]), w))"

definition read_hvac_action :: "'d client \<Rightarrow> 'd world \<Rightarrow> (error + HVACAction) \<times> 'd world" where
  "read_hvac_action c w =
     (let (mode_and_active, w) = invoke ReadHvacMode (client_read_hvac_mode c) w in
      case mode_and_active of
        None \<Rightarrow> (Inl (HomeAssistantError ''failed_to_read_hvac_action'' []), w)
      | Some (mode, is_active) \<Rightarrow>
          if \<not> is_active then (Inr HVACAction_OFF, w)
          else if upper mode = ''HEAT'' then (Inr HVACAction_HEATING, w)
          else if upper mode = ''COOL'' then (Inr HVACAction_COOLING, w)
          else if upper mode = ''OFF'' then (Inr HVACAction_OFF, w)
          else if upper mode = ''AUTO''
                  \<and> attr_current_temperature (ent w) \<noteq> None
                  \<and> attr_target_temperature_low (ent w) \<noteq> None
          then (if the (attr_current_temperature (ent w)) > the (attr_target_temperature_low (ent w))
                then (Inr HVACAction_COOLING, w)
                else (Inr HVACAction_HEATING, w))
          else (Inl (HomeAssistantError ''failed_to_parse_hvac_mode''
                       [(''mode_and_active'', PyModeActive mode is_active),
                        (''current_temperature'', PyStr (str_opt (attr_current_temperature (ent w)))),
                        (''target_temperature_low'',
                           PyStr (str_opt (attr_target_temperature_low (ent w))))]), w))"

text \<open>
  \<^verbatim>\<open>async_update\<close>, in two parts. \<open>async_update_readings\<close> is its body up to the end of
  the \<^verbatim>\<open>match\<close> statement: the readings of the current temperature, the fan mode, the mode
  and the setpoints. The final \<^verbatim>\<open>case _\<close> of the \<^verbatim>\<open>match\<close> only logs, which leaves the
  entity as it is. \<open>async_update\<close> then runs the last statement,
  \<^verbatim>\<open>self._attr_hvac_action = await self._read_hvac_action()\<close>.
\<close>

definition async_update_readings :: "'d client \<Rightarrow> 'd world \<Rightarrow> (error + unit) \<times> 'd world" where
  "async_update_readings c w =
     (let (cur, w) = invoke ReadCurrentTemperature (client_read_current_temperature c) w;
          w = w\<lparr>ent := (ent w)\<lparr>attr_current_temperature := cur\<rparr>\<rparr>;
          (fan, w) = invoke ReadFanMode (client_read_fan_mode c) w;
          w = w\<lparr>ent := (ent w)\<lparr>attr_fan_mode := fan\<rparr>\<rparr>;
          w = (case attr_fan_mode (ent w) of
                 None \<Rightarrow> w
               | Some f \<Rightarrow> w\<lparr>ent := (ent w)\<lparr>attr_fan_mode := Some (lower f)\<rparr>\<rparr>);
          w = w\<lparr>ent := (ent w)\<lparr>attr_target_temperature := None\<rparr>\<rparr>;
          w = w\<lparr>ent := (ent w)\<lparr>attr_target_temperature_high := None\<rparr>\<rparr>;
          w = w\<lparr>ent := (ent w)\<lparr>attr_target_temperature_low := None\<rparr>\<rparr>
      in case read_hvac_mode c w of
           (Inl e, w) \<Rightarrow> (Inl e, w)
         | (Inr m, w) \<Rightarrow>
             (let w = w\<lparr>ent := (ent w)\<lparr>attr_hvac_mode := Some m\<rparr>\<rparr> in
              case m of
                HVACMode_HEAT \<Rightarrow>
                  (let (v, w) = invoke ReadHeatingSetpoint (client_read_heating_setpoint c) w
                   in (Inr (), w\<lparr>ent := (ent w)\<lparr>attr_target_temperature := v\<rparr>\<rparr>))
              | HVACMode_COOL \<Rightarrow>
                  (let (v, w) = invoke ReadCoolingSetpoint (client_read_cooling_setpoint c) w
                   in (Inr (), w\<lparr>ent := (ent w)\<lparr>attr_target_temperature := v\<rparr>\<rparr>))
              | HVACMode_HEAT_COOL \<Rightarrow>
                  (let (v, w) = invoke ReadCoolingSetpoint (client_read_cooling_setpoint c) w;
                       w = w\<lparr>ent := (ent w)\<lparr>attr_target_temperature_high := v\<rparr>\<rparr>;
                       (v, w) = invoke ReadHeatingSetpoint (client_read_heating_setpoint c) w
                   in (Inr (), w\<lparr>ent := (ent w)\<lparr>attr_target_temperature_low := v\<rparr>\<rparr>))
              | HVACMode_OFF \<Rightarrow> (Inr (), w)
              | _ \<Rightarrow> (Inr (), w)))"

definition async_update :: "'d client \<Rightarrow> 'd world \<Rightarrow> (error + unit) \<times> 'd world" where
  "async_update c w =
     (case async_update_readings c w of
        (Inl e, w) \<Rightarrow> (Inl e, w)
      | (Inr _, w) \<Rightarrow>
          (case read_hvac_action c w of
             (Inl e, w) \<Rightarrow> (Inl e, w)
           | (Inr a, w) \<Rightarrow> (Inr (), w\<lparr>ent := (ent w)\<lparr>attr_hvac_action := Some a\<rparr>\<rparr>)))"

subsection \<open>Writing: the mutators\<close>

definition async_set_hvac_mode ::
  "'d client \<Rightarrow> HVACMode \<Rightarrow> 'd world \<Rightarrow> (error + unit) \<times> 'd world" where
  "async_set_hvac_mode c hvac_mode w =
     (let hvac_mode = (if hvac_mode = HVACMode_HEAT_COOL then HVACMode_AUTO else hvac_mode);
          (ok, w) = invoke (SetHvacMode (mode_value hvac_mode))
                      (client_set_hvac_mode c (mode_value hvac_mode)) w
      in if \<not> ok then (Inl (HomeAssistantError ''failed_to_set_hvac_mode'' []), w)
         else (Inr (), write_ha_state (w\<lparr>ent := (ent w)\<lparr>attr_hvac_mode := Some hvac_mode\<rparr>\<rparr>)))"

text \<open>
  The keyword arguments of \<^verbatim>\<open>async_set_temperature\<close>: each of the three fields is absent
  (\<open>None\<close>, which is also what \<^verbatim>\<open>kwargs.get\<close> gives for an explicit \<^verbatim>\<open>None\<close>) or a finite
  number, an \<^verbatim>\<open>int\<close> or a \<^verbatim>\<open>float\<close> (every finite float is a rational). \<open>truthy\<close> is
  the test \<^verbatim>\<open>if kwargs.get(...)\<close>; \<open>py_int\<close> is \<^verbatim>\<open>int(...)\<close>, which truncates a float
  towards zero.
\<close>

datatype number = PyInt int | PyFloat rat

record kwargs =
  target_temp_high :: "number option"
  target_temp_low :: "number option"
  temperature :: "number option"

fun truthy :: "number option \<Rightarrow> bool" where
  "truthy None = False"
| "truthy (Some (PyInt i)) = (i \<noteq> 0)"
| "truthy (Some (PyFloat r)) = (r \<noteq> 0)"

fun py_int :: "number \<Rightarrow> int" where
  "py_int (PyInt i) = i"
| "py_int (PyFloat r) = (if 0 \<le> r then \<lfloor>r\<rfloor> else \<lceil>r\<rceil>)"

definition async_set_temperature ::
  "'d client \<Rightarrow> kwargs \<Rightarrow> 'd world \<Rightarrow> (error + unit) \<times> 'd world" where
  "async_set_temperature c kw w =
     (case (if truthy (target_temp_high kw)
            then (let temp = py_int (the (target_temp_high kw));
                      (ok, w) = invoke (SetCoolingSetpoint temp) (client_set_cooling_setpoint c temp) w
                  in if \<not> ok then (Inl (HomeAssistantError ''failed_to_set_clsp'' []), w)
                     else (Inr (), write_ha_state
                             (w\<lparr>ent := (ent w)\<lparr>attr_target_temperature_high := Some temp\<rparr>\<rparr>)))
            else (Inr (), w)) of
        (Inl e, w) \<Rightarrow> (Inl e, w)
      | (Inr _, w) \<Rightarrow>
     (case (if truthy (target_temp_low kw)
            then (let temp = py_int (the (target_temp_low kw));
                      (ok, w) = invoke (SetHeatingSetpoint temp) (client_set_heating_setpoint c temp) w
                  in if \<not> ok then (Inl (HomeAssistantError ''failed_to_set_htsp'' []), w)
                     else (Inr (), write_ha_state
                             (w\<lparr>ent := (ent w)\<lparr>attr_target_temperature_low := Some temp\<rparr>\<rparr>)))
            else (Inr (), w)) of
        (Inl e, w) \<Rightarrow> (Inl e, w)
      | (Inr _, w) \<Rightarrow>
          (if truthy (temperature kw)
           then (let temp = py_int (the (temperature kw));
                     (ok, w) =
                       (if attr_hvac_mode (ent w) = Some HVACMode_HEAT
                        then invoke (SetHeatingSetpoint temp) (client_set_heating_setpoint c temp) w
                        else invoke (SetCoolingSetpoint temp) (client_set_cooling_setpoint c temp) w)
                 in if \<not> ok then (Inl (HomeAssistantError ''failed_to_set_temp'' []), w)
                    else (Inr (), write_ha_state
                            (w\<lparr>ent := (ent w)\<lparr>attr_target_temperature := Some temp\<rparr>\<rparr>)))
           else (Inr (), w))))"

definition async_set_fan_mode ::
  "'d client \<Rightarrow> string \<Rightarrow> 'd world \<Rightarrow> (error + unit) \<times> 'd world" where
  "async_set_fan_mode c fan_mode w =
     (let (ok, w) = invoke (SetFanMode fan_mode) (client_set_fan_mode c fan_mode) w
      in if \<not> ok then (Inl (HomeAssistantError ''failed_to_set_fan_mode'' []), w)
         else (Inr (), write_ha_state (w\<lparr>ent := (ent w)\<lparr>attr_fan_mode := Some (lower fan_mode)\<rparr>\<rparr>)))"

subsection \<open>A sample device\<close>

text \<open>
  A simple device to run the methods on: it answers the reads from its registers, and a
  write succeeds, and sets the register, unless the call is on its list of rejected calls.
\<close>

record dev =
  dev_temperature :: "int option"
  dev_fan :: "string option"
  dev_mode :: "(string \<times> bool) option"
  dev_htsp :: "int option"
  dev_clsp :: "int option"
  dev_rejects :: "call list"

definition sim_client :: "dev client" where
  "sim_client =
     \<lparr> client_read_current_temperature = (\<lambda>d. (dev_temperature d, d)),
       client_read_fan_mode = (\<lambda>d. (dev_fan d, d)),
       client_read_hvac_mode = (\<lambda>d. (dev_mode d, d)),
       client_read_heating_setpoint = (\<lambda>d. (dev_htsp d, d)),
       client_read_cooling_setpoint = (\<lambda>d. (dev_clsp d, d)),
       client_set_hvac_mode = (\<lambda>s d.
          if SetHvacMode s \<in> set (dev_rejects d) then (False, d)
          else (True, d\<lparr>dev_mode := Some (s, False)\<rparr>)),
       client_set_heating_setpoint = (\<lambda>t d.
          if SetHeatingSetpoint t \<in> set (dev_rejects d) then (False, d)
          else (True, d\<lparr>dev_htsp := Some t\<rparr>)),
       client_set_cooling_setpoint = (\<lambda>t d.
          if SetCoolingSetpoint t \<in> set (dev_rejects d) then (False, d)
          else (True, d\<lparr>dev_clsp := Some t\<rparr>)),
       client_set_fan_mode = (\<lambda>s d.
          if SetFanMode s \<in> set (dev_rejects d) then (False, d)
          else (True, d\<lparr>dev_fan := Some s\<rparr>)) \<rparr>"

definition dev0 :: dev where
  "dev0 = \<lparr> dev_temperature = Some 72, dev_fan = Some ''AUTO'', dev_mode = Some (''AUTO'', True),
            dev_htsp = Some 70, dev_clsp = Some 76, dev_rejects = [] \<rparr>"

text \<open>The entity before its first update: no attribute is set.\<close>

definition ent0 :: entity where
  "ent0 = \<lparr> attr_current_temperature = None, attr_fan_mode = None,
            attr_target_temperature = None, attr_target_temperature_high = None,
            attr_target_temperature_low = None, attr_hvac_mode = None,
            attr_hvac_action = None \<rparr>"

definition world0 :: "dev \<Rightarrow> dev world" where
  "world0 d = \<lparr> ent = ent0, device = d, trace = [] \<rparr>"

subsection \<open>Notions of the specification\<close>

text \<open>
  A mode string is recognised when it is one of heat, cool, auto and off, compared
  case-insensitively (here: after lower-casing).
\<close>

definition recognised_mode :: "string \<Rightarrow> bool" where
  "recognised_mode m \<longleftrightarrow> lower m \<in> set [''heat'', ''cool'', ''auto'', ''off'']"

text \<open>The device calls of a trace, in order, without the state-write signals.\<close>

fun device_calls :: "event list \<Rightarrow> call list" where
  "device_calls [] = []"
| "device_calls (Call k # tr) = k # device_calls tr"
| "device_calls (WriteHaState # tr) = device_calls tr"

text \<open>
  The write that a \<^verbatim>\<open>temperature\<close> field is routed to: the heating setpoint when the
  local mode is heat, the cooling setpoint for every other mode.
\<close>

definition target_write :: "HVACMode option \<Rightarrow> int \<Rightarrow> call" where
  "target_write m t = (if m = Some HVACMode_HEAT then SetHeatingSetpoint t else SetCoolingSetpoint t)"

text \<open>
  The writes of one call of \<^verbatim>\<open>async_set_temperature\<close> in the order high, low, target,
  one for each field that passes the presence test.
\<close>

definition planned_writes :: "HVACMode option \<Rightarrow> kwargs \<Rightarrow> call list" where
  "planned_writes m kw =
     (if truthy (target_temp_high kw)
      then [SetCoolingSetpoint (py_int (the (target_temp_high kw)))] else []) @
     (if truthy (target_temp_low kw)
      then [SetHeatingSetpoint (py_int (the (target_temp_low kw)))] else []) @
     (if truthy (temperature kw)
      then [target_write m (py_int (the (temperature kw)))] else [])"

text \<open>A successful write in the trace: the call, then the state-write signal.\<close>

definition written :: "call list \<Rightarrow> event list" where
  "written ks = concat (map (\<lambda>k. [Call k, WriteHaState]) ks)"

text \<open>The client operation behind \<open>target_write\<close>.\<close>

definition target_op :: "'d client \<Rightarrow> HVACMode option \<Rightarrow> int \<Rightarrow> 'd \<Rightarrow> bool \<times> 'd" where
  "target_op c m t =
     (if m = Some HVACMode_HEAT then client_set_heating_setpoint c t
      else client_set_cooling_setpoint c t)"

text \<open>
  The mode string handed to the device: the combined mode heat_cool is the device's
  "auto", every other mode is its own string.
\<close>

definition device_mode_string :: "HVACMode \<Rightarrow> string" where
  "device_mode_string m = (if m = HVACMode_HEAT_COOL then ''auto'' else mode_value m)"

text \<open>The sample entity with a given local mode, on a given device, with an empty trace.\<close>

definition world_in_mode :: "HVACMode \<Rightarrow> dev \<Rightarrow> dev world" where
  "world_in_mode m d = \<lparr> ent = ent0\<lparr>attr_hvac_mode := Some m\<rparr>, device = d, trace = [] \<rparr>"

section \<open>Auxiliary facts\<close>

subsection \<open>Characters and case folding\<close>

lemma char_of_eq_iff_nat: "char_of (n::nat) = ch \<longleftrightarrow> n mod 256 = of_char ch"
  by (metis of_char_of char_of_char char_of_mod_256)

lemma of_char_upper_char:
  "(of_char (upper_char ch) :: nat) =
     (if 97 \<le> (of_char ch :: nat) \<and> (of_char ch :: nat) \<le> 122 then of_char ch - 32 else of_char ch)"
  by (auto simp: upper_char_def Let_def)

lemma of_char_lower_char:
  "(of_char (lower_char ch) :: nat) =
     (if 65 \<le> (of_char ch :: nat) \<and> (of_char ch :: nat) \<le> 90 then of_char ch + 32 else of_char ch)"
  by (auto simp: lower_char_def Let_def)

lemma case_fold_arith:
  fixes x y :: nat
  shows "((if 97 \<le> x \<and> x \<le> 122 then x - 32 else x) = (if 97 \<le> y \<and> y \<le> 122 then y - 32 else y))
     \<longleftrightarrow> ((if 65 \<le> x \<and> x \<le> 90 then x + 32 else x) = (if 65 \<le> y \<and> y \<le> 90 then y + 32 else y))"
  by (auto split: if_splits)

lemma upper_char_eq_iff: "upper_char a = upper_char b \<longleftrightarrow> lower_char a = lower_char b"
proof -
  have "upper_char a = upper_char b \<longleftrightarrow> (of_char (upper_char a) :: nat) = of_char (upper_char b)"
    by simp
  also have "\<dots> \<longleftrightarrow> (of_char (lower_char a) :: nat) = of_char (lower_char b)"
    unfolding of_char_upper_char of_char_lower_char by (rule case_fold_arith)
  also have "\<dots> \<longleftrightarrow> lower_char a = lower_char b"
    by simp
  finally show ?thesis .
qed

lemma upper_eq_iff: "upper s = upper t \<longleftrightarrow> lower s = lower t"
  unfolding upper_def lower_def
proof (induction s arbitrary: t)
  case Nil
  then show ?case by auto
next
  case (Cons a s)
  then show ?case by (cases t) (auto simp: upper_char_eq_iff)
qed

lemma upper_literals:
  "upper ''heat'' = ''HEAT''" "upper ''cool'' = ''COOL''" "upper ''auto'' = ''AUTO''"
  "upper ''off'' = ''OFF''"
  by (simp_all add: upper_def upper_char_def char_of_eq_iff_nat)

lemma lower_literals:
  "lower ''heat'' = ''heat''" "lower ''cool'' = ''cool''" "lower ''auto'' = ''auto''"
  "lower ''off'' = ''off''"
  by (simp_all add: lower_def lower_char_def char_of_eq_iff_nat)

text \<open>The source compares the upper-cased string; that is the case-insensitive comparison.\<close>

lemma upper_HEAT: "upper m = ''HEAT'' \<longleftrightarrow> lower m = ''heat''"
  using upper_eq_iff [of m "''heat''"] by (simp only: upper_literals lower_literals)

lemma upper_COOL: "upper m = ''COOL'' \<longleftrightarrow> lower m = ''cool''"
  using upper_eq_iff [of m "''cool''"] by (simp only: upper_literals lower_literals)

lemma upper_AUTO: "upper m = ''AUTO'' \<longleftrightarrow> lower m = ''auto''"
  using upper_eq_iff [of m "''auto''"] by (simp only: upper_literals lower_literals)

lemma upper_OFF: "upper m = ''OFF'' \<longleftrightarrow> lower m = ''off''"
  using upper_eq_iff [of m "''off''"] by (simp only: upper_literals lower_literals)

lemmas upper_lower = upper_HEAT upper_COOL upper_AUTO upper_OFF

subsection \<open>Client calls and traces\<close>

lemma invoke_eq:
  "invoke k f w =
     (fst (f (device w)), w\<lparr>device := snd (f (device w)), trace := trace w @ [Call k]\<rparr>)"
  by (simp add: invoke_def split: prod.splits)

lemma device_calls_append: "device_calls (xs @ ys) = device_calls xs @ device_calls ys"
  by (induction xs rule: device_calls.induct) simp_all

lemma Call_in_written: "Call k \<in> set (written ks) \<longleftrightarrow> k \<in> set ks"
  by (induction ks) (auto simp: written_def)

subsection \<open>The reading methods, evaluated symbolically\<close>

lemma read_hvac_mode_eq:
  "read_hvac_mode c w =
     (let r = client_read_hvac_mode c (device w);
          w' = w\<lparr>device := snd r, trace := trace w @ [Call ReadHvacMode]\<rparr>
      in case fst r of
           None \<Rightarrow> (Inl (HomeAssistantError ''failed_to_read_hvac_mode'' []), w')
         | Some (mode, is_active) \<Rightarrow>
             if lower mode = ''heat'' then (Inr HVACMode_HEAT, w')
             else if lower mode = ''cool'' then (Inr HVACMode_COOL, w')
             else if lower mode = ''auto'' then (Inr HVACMode_HEAT_COOL, w')
             else if lower mode = ''off'' then (Inr HVACMode_OFF, w')
             else (Inl (HomeAssistantError ''failed_to_parse_hvac_mode'' [(''mode'', PyStr mode)]), w'))"
  by (simp add: read_hvac_mode_def invoke_eq Let_def upper_lower split: option.splits)

lemma read_hvac_action_eq:
  "read_hvac_action c w =
     (let r = client_read_hvac_mode c (device w);
          w' = w\<lparr>device := snd r, trace := trace w @ [Call ReadHvacMode]\<rparr>
      in case fst r of
           None \<Rightarrow> (Inl (HomeAssistantError ''failed_to_read_hvac_action'' []), w')
         | Some (mode, is_active) \<Rightarrow>
             if \<not> is_active then (Inr HVACAction_OFF, w')
             else if lower mode = ''heat'' then (Inr HVACAction_HEATING, w')
             else if lower mode = ''cool'' then (Inr HVACAction_COOLING, w')
             else if lower mode = ''off'' then (Inr HVACAction_OFF, w')
             else if lower mode = ''auto'' \<and> attr_current_temperature (ent w) \<noteq> None
                     \<and> attr_target_temperature_low (ent w) \<noteq> None
             then (if the (attr_current_temperature (ent w)) > the (attr_target_temperature_low (ent w))
                   then (Inr HVACAction_COOLING, w') else (Inr HVACAction_HEATING, w'))
             else (Inl (HomeAssistantError ''failed_to_parse_hvac_mode''
                       [(''mode_and_active'', PyModeActive mode is_active),
                        (''current_temperature'', PyStr (str_opt (attr_current_temperature (ent w)))),
                        (''target_temperature_low'',
                           PyStr (str_opt (attr_target_temperature_low (ent w))))]), w'))"
  by (auto simp: read_hvac_action_def invoke_eq Let_def upper_lower split: option.splits)

lemma readings_eq:
  assumes r1: "client_read_current_temperature c (device w) = (cur, d1)"
      and r2: "client_read_fan_mode c d1 = (fan, d2)"
      and r3: "client_read_hvac_mode c d2 = (ma, d3)"
  shows "async_update_readings c w =
     (let e = (ent w)\<lparr>attr_current_temperature := cur, attr_fan_mode := map_option lower fan,
                      attr_target_temperature := None, attr_target_temperature_high := None,
                      attr_target_temperature_low := None\<rparr>;
          tr = trace w @ [Call ReadCurrentTemperature, Call ReadFanMode, Call ReadHvacMode]
      in case ma of
           None \<Rightarrow> (Inl (HomeAssistantError ''failed_to_read_hvac_mode'' []),
                     \<lparr>ent = e, device = d3, trace = tr\<rparr>)
         | Some (mode, is_active) \<Rightarrow>
             if lower mode = ''heat''
             then (Inr (), \<lparr>ent = e\<lparr>attr_target_temperature := fst (client_read_heating_setpoint c d3),
                                    attr_hvac_mode := Some HVACMode_HEAT\<rparr>,
                            device = snd (client_read_heating_setpoint c d3),
                            trace = tr @ [Call ReadHeatingSetpoint]\<rparr>)
             else if lower mode = ''cool''
             then (Inr (), \<lparr>ent = e\<lparr>attr_target_temperature := fst (client_read_cooling_setpoint c d3),
                                    attr_hvac_mode := Some HVACMode_COOL\<rparr>,
                            device = snd (client_read_cooling_setpoint c d3),
                            trace = tr @ [Call ReadCoolingSetpoint]\<rparr>)
             else if lower mode = ''auto''
             then (Inr (), \<lparr>ent = e\<lparr>attr_target_temperature_high := fst (client_read_cooling_setpoint c d3),
                                    attr_target_temperature_low :=
                                      fst (client_read_heating_setpoint c (snd (client_read_cooling_setpoint c d3))),
                                    attr_hvac_mode := Some HVACMode_HEAT_COOL\<rparr>,
                            device = snd (client_read_heating_setpoint c (snd (client_read_cooling_setpoint c d3))),
                            trace = tr @ [Call ReadCoolingSetpoint, Call ReadHeatingSetpoint]\<rparr>)
             else if lower mode = ''off''
             then (Inr (), \<lparr>ent = e\<lparr>attr_hvac_mode := Some HVACMode_OFF\<rparr>, device = d3, trace = tr\<rparr>)
             else (Inl (HomeAssistantError ''failed_to_parse_hvac_mode'' [(''mode'', PyStr mode)]),
                   \<lparr>ent = e, device = d3, trace = tr\<rparr>))"
  using r1 r2 r3
  by (cases fan)
    (simp_all add: async_update_readings_def read_hvac_mode_eq invoke_eq Let_def split: option.splits)

lemma read_hvac_action_world:
  "snd (read_hvac_action c w) =
     w\<lparr>device := snd (client_read_hvac_mode c (device w)), trace := trace w @ [Call ReadHvacMode]\<rparr>"
  by (simp add: read_hvac_action_eq Let_def split: option.splits)

lemma update_after_readings:
  assumes "async_update_readings c w = (Inr (), w1)"
  shows "async_update c w =
     (case fst (read_hvac_action c w1) of
        Inl e \<Rightarrow> (Inl e, w1\<lparr>device := snd (client_read_hvac_mode c (device w1)),
                           trace := trace w1 @ [Call ReadHvacMode]\<rparr>)
      | Inr a \<Rightarrow> (Inr (), \<lparr>ent = (ent w1)\<lparr>attr_hvac_action := Some a\<rparr>,
                          device = snd (client_read_hvac_mode c (device w1)),
                          trace = trace w1 @ [Call ReadHvacMode]\<rparr>))"
proof -
  obtain r w2 where rw: "read_hvac_action c w1 = (r, w2)"
    by (cases "read_hvac_action c w1")
  then have w2: "w2 = w1\<lparr>device := snd (client_read_hvac_mode c (device w1)),
                          trace := trace w1 @ [Call ReadHvacMode]\<rparr>"
    using read_hvac_action_world [of c w1] by simp
  show ?thesis
    using assms rw w2 by (cases r) (simp_all add: async_update_def)
qed

lemma update_failed_readings:
  assumes "async_update_readings c w = (Inl e, w1)"
  shows "async_update c w = (Inl e, w1)"
  using assms by (simp add: async_update_def)

lemma update_keeps_readings:
  "attr_hvac_mode (ent (snd (async_update c w))) = attr_hvac_mode (ent (snd (async_update_readings c w)))"
  "attr_target_temperature (ent (snd (async_update c w)))
     = attr_target_temperature (ent (snd (async_update_readings c w)))"
  "attr_target_temperature_high (ent (snd (async_update c w)))
     = attr_target_temperature_high (ent (snd (async_update_readings c w)))"
  "attr_target_temperature_low (ent (snd (async_update c w)))
     = attr_target_temperature_low (ent (snd (async_update_readings c w)))"
  "device_calls (trace (snd (async_update c w))) =
     device_calls (trace (snd (async_update_readings c w)))
       @ (if isl (fst (async_update_readings c w)) then [] else [ReadHvacMode])"
proof -
  obtain r w1 where rw: "async_update_readings c w = (r, w1)"
    by (cases "async_update_readings c w")
  show "attr_hvac_mode (ent (snd (async_update c w))) = attr_hvac_mode (ent (snd (async_update_readings c w)))"
    "attr_target_temperature (ent (snd (async_update c w)))
       = attr_target_temperature (ent (snd (async_update_readings c w)))"
    "attr_target_temperature_high (ent (snd (async_update c w)))
       = attr_target_temperature_high (ent (snd (async_update_readings c w)))"
    "attr_target_temperature_low (ent (snd (async_update c w)))
       = attr_target_temperature_low (ent (snd (async_update_readings c w)))"
    "device_calls (trace (snd (async_update c w))) =
       device_calls (trace (snd (async_update_readings c w)))
         @ (if isl (fst (async_update_readings c w)) then [] else [ReadHvacMode])"
    using rw
    by (cases r; simp add: update_after_readings update_failed_readings device_calls_append
          split: sum.splits)+
qed

lemma action_raises_iff:
  "isl (fst (read_hvac_action c w)) \<longleftrightarrow>
     (case fst (client_read_hvac_mode c (device w)) of
        None \<Rightarrow> True
      | Some (mode, is_active) \<Rightarrow>
          is_active \<and> (\<not> recognised_mode mode
            \<or> lower mode = ''auto''
               \<and> (attr_current_temperature (ent w) = None \<or> attr_target_temperature_low (ent w) = None)))"
  by (auto simp: read_hvac_action_eq Let_def recognised_mode_def split: option.splits)

lemma update_errors_are_read_errors:
  "fst (async_update c w) = Inl e \<Longrightarrow> DeviceReadError e"
proof -
  assume a: "fst (async_update c w) = Inl e"
  obtain r w1 where rw: "async_update_readings c w = (r, w1)"
    by (cases "async_update_readings c w")
  show "DeviceReadError e"
  proof (cases r)
    case (Inl e')
    with rw a have "e' = e" by (simp add: update_failed_readings)
    with rw Inl have "fst (async_update_readings c w) = Inl e" by simp
    then show ?thesis
      using readings_eq [of c w "fst (client_read_current_temperature c (device w))"
      "snd (client_read_current_temperature c (device w))"
      "fst (client_read_fan_mode c (snd (client_read_current_temperature c (device w))))"
      "snd (client_read_fan_mode c (snd (client_read_current_temperature c (device w))))"
      "fst (client_read_hvac_mode c (snd (client_read_fan_mode c (snd (client_read_current_temperature c (device w))))))"
      "snd (client_read_hvac_mode c (snd (client_read_fan_mode c (snd (client_read_current_temperature c (device w))))))"]
      by (auto simp: Let_def DeviceReadError_def split: option.splits if_splits)
  next
    case (Inr u)
    with rw have r: "async_update_readings c w = (Inr (), w1)" by simp
    from a show ?thesis
      unfolding update_after_readings [OF r]
      by (auto simp: read_hvac_action_eq Let_def DeviceReadError_def split: option.splits if_splits sum.splits)
  qed
qed

subsection \<open>\<^verbatim>\<open>async_set_temperature\<close>, field by field\<close>

lemmas st_defs = async_set_temperature_def Let_def invoke_eq write_ha_state_def

lemma only_high:
  "async_set_temperature c \<lparr>target_temp_high = x, target_temp_low = None, temperature = None\<rparr> w =
     (if truthy x
      then (if fst (client_set_cooling_setpoint c (py_int (the x)) (device w))
            then (Inr (), \<lparr>ent = (ent w)\<lparr>attr_target_temperature_high := Some (py_int (the x))\<rparr>,
                           device = snd (client_set_cooling_setpoint c (py_int (the x)) (device w)),
                           trace = trace w @ [Call (SetCoolingSetpoint (py_int (the x))), WriteHaState]\<rparr>)
            else (Inl (HomeAssistantError ''failed_to_set_clsp'' []),
                  \<lparr>ent = ent w,
                   device = snd (client_set_cooling_setpoint c (py_int (the x)) (device w)),
                   trace = trace w @ [Call (SetCoolingSetpoint (py_int (the x)))]\<rparr>))
      else (Inr (), w))"
  by (simp add: st_defs)

lemma only_low:
  "async_set_temperature c \<lparr>target_temp_high = None, target_temp_low = x, temperature = None\<rparr> w =
     (if truthy x
      then (if fst (client_set_heating_setpoint c (py_int (the x)) (device w))
            then (Inr (), \<lparr>ent = (ent w)\<lparr>attr_target_temperature_low := Some (py_int (the x))\<rparr>,
                           device = snd (client_set_heating_setpoint c (py_int (the x)) (device w)),
                           trace = trace w @ [Call (SetHeatingSetpoint (py_int (the x))), WriteHaState]\<rparr>)
            else (Inl (HomeAssistantError ''failed_to_set_htsp'' []),
                  \<lparr>ent = ent w,
                   device = snd (client_set_heating_setpoint c (py_int (the x)) (device w)),
                   trace = trace w @ [Call (SetHeatingSetpoint (py_int (the x)))]\<rparr>))
      else (Inr (), w))"
  by (simp add: st_defs)

lemma only_target:
  "async_set_temperature c \<lparr>target_temp_high = None, target_temp_low = None, temperature = x\<rparr> w =
     (if truthy x
      then (if fst (target_op c (attr_hvac_mode (ent w)) (py_int (the x)) (device w))
            then (Inr (), \<lparr>ent = (ent w)\<lparr>attr_target_temperature := Some (py_int (the x))\<rparr>,
                           device = snd (target_op c (attr_hvac_mode (ent w)) (py_int (the x)) (device w)),
                           trace = trace w @ [Call (target_write (attr_hvac_mode (ent w)) (py_int (the x))),
                                              WriteHaState]\<rparr>)
            else (Inl (HomeAssistantError ''failed_to_set_temp'' []),
                  \<lparr>ent = ent w,
                   device = snd (target_op c (attr_hvac_mode (ent w)) (py_int (the x)) (device w)),
                   trace = trace w @ [Call (target_write (attr_hvac_mode (ent w)) (py_int (the x)))]\<rparr>))
      else (Inr (), w))"
  by (simp add: st_defs target_op_def target_write_def)

text \<open>
  A call with several fields is the three single-field calls in sequence, high, low,
  target, ended by the first failure.
\<close>

lemma set_temperature_seq:
  "async_set_temperature c kw w =
     (case async_set_temperature c
             \<lparr>target_temp_high = target_temp_high kw, target_temp_low = None, temperature = None\<rparr> w of
        (Inl e, w1) \<Rightarrow> (Inl e, w1)
      | (Inr _, w1) \<Rightarrow>
     (case async_set_temperature c
             \<lparr>target_temp_high = None, target_temp_low = target_temp_low kw, temperature = None\<rparr> w1 of
        (Inl e, w2) \<Rightarrow> (Inl e, w2)
      | (Inr _, w2) \<Rightarrow>
          async_set_temperature c
            \<lparr>target_temp_high = None, target_temp_low = None, temperature = temperature kw\<rparr> w2))"
  by (simp add: st_defs)

lemma set_temperature_trace:
  "prefix (trace w) (trace (snd (async_set_temperature c kw w))) \<and>
   prefix (trace (snd (async_set_temperature c kw w)))
          (trace w @ written (planned_writes (attr_hvac_mode (ent w)) kw)) \<and>
   (fst (async_set_temperature c kw w) = Inr () \<longleftrightarrow>
      trace (snd (async_set_temperature c kw w)) =
        trace w @ written (planned_writes (attr_hvac_mode (ent w)) kw))"
  apply (subst (1 2 3 4) set_temperature_seq)
  apply (simp only: only_high only_low only_target)
  apply (simp add: planned_writes_def written_def split: if_splits)
  done


lemma py_int_zero_iff:
  "truthy (Some v) \<and> py_int v = 0 \<longleftrightarrow> (\<exists>r. v = PyFloat r \<and> r \<noteq> 0 \<and> - 1 < r \<and> r < 1)"
  by (cases v) (auto simp: floor_eq_iff ceiling_eq_iff)

lemma truthy_zero_iff:
  "truthy x \<and> py_int (the x) = 0 \<longleftrightarrow> (\<exists>r. x = Some (PyFloat r) \<and> r \<noteq> 0 \<and> - 1 < r \<and> r < 1)"
  using py_int_zero_iff by (cases x) auto

lemma zero_planned:
  assumes "SetCoolingSetpoint 0 \<in> set (planned_writes m kw)
             \<or> SetHeatingSetpoint 0 \<in> set (planned_writes m kw)"
  shows "\<exists>x \<in> set [target_temp_high kw, target_temp_low kw, temperature kw].
           \<exists>r. x = Some (PyFloat r) \<and> r \<noteq> 0 \<and> - 1 < r \<and> r < 1"
proof -
  from assms have "(truthy (target_temp_high kw) \<and> py_int (the (target_temp_high kw)) = 0)
      \<or> (truthy (target_temp_low kw) \<and> py_int (the (target_temp_low kw)) = 0)
      \<or> (truthy (temperature kw) \<and> py_int (the (temperature kw)) = 0)"
    by (auto simp: planned_writes_def target_write_def split: if_splits)
  then show ?thesis
    unfolding truthy_zero_iff by auto
qed

subsection \<open>Evaluation on the sample device\<close>

lemmas sim_defs = sim_client_def dev0_def ent0_def world0_def world_in_mode_def

lemmas eval_strings = upper_def upper_char_def lower_def lower_char_def char_of_eq_iff_nat

lemmas sim_eval = st_defs sim_defs target_op_def target_write_def

lemmas update_eval = async_update_def async_update_readings_def read_hvac_mode_def
  read_hvac_action_def invoke_eq Let_def sim_defs eval_strings

lemmas str_eval = str_opt_def str_int_def str_nat.simps digit_char_def char_of_eq_iff_nat

section \<open>Setting the mode\<close>

text \<open>
  C1. For \<^verbatim>\<open>async_set_hvac_mode\<close> with heat_cool the device write is invoked with the
  string "auto", and when the write succeeds a state-write signal follows; the claim goes
  on to say that the local mode is then stored as heat_cool and not as auto. The source
  overwrites its parameter with \<^verbatim>\<open>HVACMode.AUTO\<close> before the write and stores that same
  variable afterwards: on the sample device, whose write succeeds, the stored mode is
  \<^verbatim>\<open>HVACMode.AUTO\<close>, which differs from heat_cool and is not among the modes the entity
  declares. The reading path \<^verbatim>\<open>_read_hvac_mode\<close> stores heat_cool for the same device mode.
\<close>

theorem set_hvac_mode_heat_cool_stores_auto:
  "async_set_hvac_mode sim_client HVACMode_HEAT_COOL (world0 dev0) =
     (Inr (), \<lparr>ent = ent0\<lparr>attr_hvac_mode := Some HVACMode_AUTO\<rparr>,
               device = dev0\<lparr>dev_mode := Some (''auto'', False)\<rparr>,
               trace = [Call (SetHvacMode ''auto''), WriteHaState]\<rparr>)
   \<and> Some HVACMode_AUTO \<noteq> Some HVACMode_HEAT_COOL
   \<and> HVACMode_AUTO \<notin> set attr_hvac_modes"
  by (simp add: async_set_hvac_mode_def invoke_eq write_ha_state_def Let_def sim_defs
      attr_hvac_modes_def)

section \<open>Setting temperatures\<close>




text \<open>
  C6, as amended. The claim speaks of every call whose target field is present. A target
  that is present and fails the presence test (0 or 0.0) makes no write at all. For a
  target that passes the test, in a call in which the device client accepts the writes
  that the call makes for targetHigh and targetLow: when the local mode is heat the
  target is written with the client's heating-setpoint write, and for every other local
  mode with its cooling-setpoint write, on the device state the earlier writes left; when
  the client accepts the write the value is stored as the target attribute and a
  state-write signal follows, and when it rejects the write the call raises the
  DeviceWriteError of the target and stores nothing for it.
\<close>

theorem set_temperature_target_routing:
  assumes "truthy (temperature kw)"
      and "truthy (target_temp_high kw) \<longrightarrow>
             fst (client_set_cooling_setpoint c (py_int (the (target_temp_high kw))) (device w))"
      and "d1 = (if truthy (target_temp_high kw)
                 then snd (client_set_cooling_setpoint c (py_int (the (target_temp_high kw))) (device w))
                 else device w)"
      and "truthy (target_temp_low kw) \<longrightarrow>
             fst (client_set_heating_setpoint c (py_int (the (target_temp_low kw))) d1)"
      and "d2 = (if truthy (target_temp_low kw)
                 then snd (client_set_heating_setpoint c (py_int (the (target_temp_low kw))) d1)
                 else d1)"
      and "e = (ent w)\<lparr>attr_target_temperature_high :=
                           (if truthy (target_temp_high kw)
                            then Some (py_int (the (target_temp_high kw)))
                            else attr_target_temperature_high (ent w)),
                         attr_target_temperature_low :=
                           (if truthy (target_temp_low kw)
                            then Some (py_int (the (target_temp_low kw)))
                            else attr_target_temperature_low (ent w))\<rparr>"
      and "tr = trace w @ written (planned_writes (attr_hvac_mode (ent w)) (kw\<lparr>temperature := None\<rparr>))"
      and "t = py_int (the (temperature kw))"
  shows "(attr_hvac_mode (ent w) = Some HVACMode_HEAT \<longrightarrow>
            async_set_temperature c kw w =
              (if fst (client_set_heating_setpoint c t d2)
               then (Inr (), \<lparr>ent = e\<lparr>attr_target_temperature := Some t\<rparr>,
                              device = snd (client_set_heating_setpoint c t d2),
                              trace = tr @ [Call (SetHeatingSetpoint t), WriteHaState]\<rparr>)
               else (Inl (HomeAssistantError ''failed_to_set_temp'' []),
                     \<lparr>ent = e, device = snd (client_set_heating_setpoint c t d2),
                      trace = tr @ [Call (SetHeatingSetpoint t)]\<rparr>))) \<and>
         (attr_hvac_mode (ent w) \<noteq> Some HVACMode_HEAT \<longrightarrow>
            async_set_temperature c kw w =
              (if fst (client_set_cooling_setpoint c t d2)
               then (Inr (), \<lparr>ent = e\<lparr>attr_target_temperature := Some t\<rparr>,
                              device = snd (client_set_cooling_setpoint c t d2),
                              trace = tr @ [Call (SetCoolingSetpoint t), WriteHaState]\<rparr>)
               else (Inl (HomeAssistantError ''failed_to_set_temp'' []),
                     \<lparr>ent = e, device = snd (client_set_cooling_setpoint c t d2),
                      trace = tr @ [Call (SetCoolingSetpoint t)]\<rparr>))) \<and>
         DeviceWriteError (HomeAssistantError ''failed_to_set_temp'' [])"
  using assms
  apply (subst (1 2) set_temperature_seq)
  apply (simp only: only_high only_low only_target)
  apply (cases "truthy (target_temp_high kw)"; cases "truthy (target_temp_low kw)";
      cases "attr_hvac_mode (ent w) = Some HVACMode_HEAT";
      simp add: planned_writes_def written_def target_op_def target_write_def DeviceWriteError_def)
  done

text \<open>
  The target 75 alone goes to the heating setpoint in mode heat and to the cooling setpoint
  in mode cool; after targetHigh 78 and targetLow 66 in mode heat_cool it goes to the
  cooling setpoint; in mode off, on a device that rejects the cooling setpoint 75, the call
  raises.
\<close>

theorem set_temperature_target_routing_witness:
  "async_set_temperature sim_client
     \<lparr>target_temp_high = None, target_temp_low = None, temperature = Some (PyInt 75)\<rparr>
     (world_in_mode HVACMode_HEAT dev0) =
     (Inr (), \<lparr>ent = ent0\<lparr>attr_target_temperature := Some 75, attr_hvac_mode := Some HVACMode_HEAT\<rparr>,
               device = dev0\<lparr>dev_htsp := Some 75\<rparr>,
               trace = [Call (SetHeatingSetpoint 75), WriteHaState]\<rparr>) \<and>
   async_set_temperature sim_client
     \<lparr>target_temp_high = None, target_temp_low = None, temperature = Some (PyInt 75)\<rparr>
     (world_in_mode HVACMode_COOL dev0) =
     (Inr (), \<lparr>ent = ent0\<lparr>attr_target_temperature := Some 75, attr_hvac_mode := Some HVACMode_COOL\<rparr>,
               device = dev0\<lparr>dev_clsp := Some 75\<rparr>,
               trace = [Call (SetCoolingSetpoint 75), WriteHaState]\<rparr>) \<and>
   async_set_temperature sim_client
     \<lparr>target_temp_high = Some (PyInt 78), target_temp_low = Some (PyInt 66),
      temperature = Some (PyInt 75)\<rparr>
     (world_in_mode HVACMode_HEAT_COOL dev0) =
     (Inr (), \<lparr>ent = ent0\<lparr>attr_target_temperature := Some 75, attr_target_temperature_high := Some 78,
                          attr_target_temperature_low := Some 66,
                          attr_hvac_mode := Some HVACMode_HEAT_COOL\<rparr>,
               device = dev0\<lparr>dev_htsp := Some 66, dev_clsp := Some 75\<rparr>,
               trace = [Call (SetCoolingSetpoint 78), WriteHaState, Call (SetHeatingSetpoint 66),
                        WriteHaState, Call (SetCoolingSetpoint 75), WriteHaState]\<rparr>) \<and>
   async_set_temperature sim_client
     \<lparr>target_temp_high = None, target_temp_low = None, temperature = Some (PyInt 75)\<rparr>
     (world_in_mode HVACMode_OFF (dev0\<lparr>dev_rejects := [SetCoolingSetpoint 75]\<rparr>)) =
     (Inl (HomeAssistantError ''failed_to_set_temp'' []),
      \<lparr>ent = ent0\<lparr>attr_hvac_mode := Some HVACMode_OFF\<rparr>,
       device = dev0\<lparr>dev_rejects := [SetCoolingSetpoint 75]\<rparr>,
       trace = [Call (SetCoolingSetpoint 75)]\<rparr>)"
proof -
  let ?k = "\<lparr>target_temp_high = None, target_temp_low = None, temperature = Some (PyInt 75)\<rparr>"
  let ?k3 = "\<lparr>target_temp_high = Some (PyInt 78), target_temp_low = Some (PyInt 66),
              temperature = Some (PyInt 75)\<rparr>"
  let ?dr = "dev0\<lparr>dev_rejects := [SetCoolingSetpoint 75]\<rparr>"
  note th = set_temperature_target_routing
  have a: "async_set_temperature sim_client ?k (world_in_mode HVACMode_HEAT dev0) =
     (Inr (), \<lparr>ent = ent0\<lparr>attr_target_temperature := Some 75, attr_hvac_mode := Some HVACMode_HEAT\<rparr>,
               device = dev0\<lparr>dev_htsp := Some 75\<rparr>,
               trace = [Call (SetHeatingSetpoint 75), WriteHaState]\<rparr>)"
    using th [of ?k sim_client "world_in_mode HVACMode_HEAT dev0" dev0 dev0
        "ent0\<lparr>attr_hvac_mode := Some HVACMode_HEAT\<rparr>" "[]" 75]
    by (simp add: sim_defs planned_writes_def written_def)
  have b: "async_set_temperature sim_client ?k (world_in_mode HVACMode_COOL dev0) =
     (Inr (), \<lparr>ent = ent0\<lparr>attr_target_temperature := Some 75, attr_hvac_mode := Some HVACMode_COOL\<rparr>,
               device = dev0\<lparr>dev_clsp := Some 75\<rparr>,
               trace = [Call (SetCoolingSetpoint 75), WriteHaState]\<rparr>)"
    using th [of ?k sim_client "world_in_mode HVACMode_COOL dev0" dev0 dev0
        "ent0\<lparr>attr_hvac_mode := Some HVACMode_COOL\<rparr>" "[]" 75]
    by (simp add: sim_defs planned_writes_def written_def)
  have c: "async_set_temperature sim_client ?k3 (world_in_mode HVACMode_HEAT_COOL dev0) =
     (Inr (), \<lparr>ent = ent0\<lparr>attr_target_temperature := Some 75, attr_target_temperature_high := Some 78,
                          attr_target_temperature_low := Some 66,
                          attr_hvac_mode := Some HVACMode_HEAT_COOL\<rparr>,
               device = dev0\<lparr>dev_htsp := Some 66, dev_clsp := Some 75\<rparr>,
               trace = [Call (SetCoolingSetpoint 78), WriteHaState, Call (SetHeatingSetpoint 66),
                        WriteHaState, Call (SetCoolingSetpoint 75), WriteHaState]\<rparr>)"
    using th [of ?k3 sim_client "world_in_mode HVACMode_HEAT_COOL dev0"
        "dev0\<lparr>dev_clsp := Some 78\<rparr>" "dev0\<lparr>dev_htsp := Some 66, dev_clsp := Some 78\<rparr>"
        "ent0\<lparr>attr_target_temperature_high := Some 78, attr_target_temperature_low := Some 66,
              attr_hvac_mode := Some HVACMode_HEAT_COOL\<rparr>"
        "[Call (SetCoolingSetpoint 78), WriteHaState, Call (SetHeatingSetpoint 66), WriteHaState]" 75]
    by (simp add: sim_defs planned_writes_def written_def)
  have d: "async_set_temperature sim_client ?k (world_in_mode HVACMode_OFF ?dr) =
     (Inl (HomeAssistantError ''failed_to_set_temp'' []),
      \<lparr>ent = ent0\<lparr>attr_hvac_mode := Some HVACMode_OFF\<rparr>, device = ?dr,
       trace = [Call (SetCoolingSetpoint 75)]\<rparr>)"
    using th [of ?k sim_client "world_in_mode HVACMode_OFF ?dr" ?dr ?dr
        "ent0\<lparr>attr_hvac_mode := Some HVACMode_OFF\<rparr>" "[]" 75]
    by (simp add: sim_defs planned_writes_def written_def)
  from a b c d show ?thesis
    by simp
qed

text \<open>
  C6 as stated fails: with the target field present and 0, in mode heat as in mode cool,
  the call makes no device call and leaves the world as it is.
\<close>

theorem set_temperature_target_routing_counterexample:
  "async_set_temperature sim_client
     \<lparr>target_temp_high = None, target_temp_low = None, temperature = Some (PyInt 0)\<rparr>
     (world_in_mode HVACMode_HEAT dev0) = (Inr (), world_in_mode HVACMode_HEAT dev0) \<and>
   device_calls (trace (snd (async_set_temperature sim_client
     \<lparr>target_temp_high = None, target_temp_low = None, temperature = Some (PyInt 0)\<rparr>
     (world_in_mode HVACMode_HEAT dev0)))) = [] \<and>
   async_set_temperature sim_client
     \<lparr>target_temp_high = None, target_temp_low = None, temperature = Some (PyInt 0)\<rparr>
     (world_in_mode HVACMode_COOL dev0) = (Inr (), world_in_mode HVACMode_COOL dev0) \<and>
   device_calls (trace (snd (async_set_temperature sim_client
     \<lparr>target_temp_high = None, target_temp_low = None, temperature = Some (PyInt 0)\<rparr>
     (world_in_mode HVACMode_COOL dev0)))) = []"
  by (simp add: sim_eval)

text \<open>
  C10, as amended. A field that fails the presence test, that is \<^verbatim>\<open>None\<close>, 0 or 0.0, is
  treated as absent: the call is the call without the field, and a call whose fields all
  fail the test makes no device call, changes nothing and raises nothing. The claim
  concludes that a setpoint of 0 can never be written. That holds for integer values only:
  the value is truncated after the presence test, so that a write of the setpoint 0 comes
  from a non-zero fraction strictly between -1 and 1, and from no other value.
\<close>

theorem set_temperature_falsy_field:
  "(\<not> truthy (target_temp_high kw) \<longrightarrow>
      async_set_temperature c kw w = async_set_temperature c (kw\<lparr>target_temp_high := None\<rparr>) w) \<and>
   (\<not> truthy (target_temp_low kw) \<longrightarrow>
      async_set_temperature c kw w = async_set_temperature c (kw\<lparr>target_temp_low := None\<rparr>) w) \<and>
   (\<not> truthy (temperature kw) \<longrightarrow>
      async_set_temperature c kw w = async_set_temperature c (kw\<lparr>temperature := None\<rparr>) w) \<and>
   (\<not> truthy (target_temp_high kw) \<and> \<not> truthy (target_temp_low kw) \<and> \<not> truthy (temperature kw) \<longrightarrow>
      async_set_temperature c kw w = (Inr (), w)) \<and>
   (\<forall>evs. trace (snd (async_set_temperature c kw w)) = trace w @ evs
        \<and> (Call (SetCoolingSetpoint 0) \<in> set evs \<or> Call (SetHeatingSetpoint 0) \<in> set evs) \<longrightarrow>
      (\<exists>x \<in> set [target_temp_high kw, target_temp_low kw, temperature kw].
         \<exists>r. x = Some (PyFloat r) \<and> r \<noteq> 0 \<and> - 1 < r \<and> r < 1))"
proof (intro conjI impI allI)
  assume "\<not> truthy (target_temp_high kw)"
  then show "async_set_temperature c kw w = async_set_temperature c (kw\<lparr>target_temp_high := None\<rparr>) w"
    by (subst set_temperature_seq, subst (4) set_temperature_seq)
      (simp add: only_high only_low only_target split: if_splits)
next
  assume "\<not> truthy (target_temp_low kw)"
  then show "async_set_temperature c kw w = async_set_temperature c (kw\<lparr>target_temp_low := None\<rparr>) w"
    by (subst set_temperature_seq, subst (4) set_temperature_seq)
      (simp add: only_high only_low only_target split: if_splits)
next
  assume "\<not> truthy (temperature kw)"
  then show "async_set_temperature c kw w = async_set_temperature c (kw\<lparr>temperature := None\<rparr>) w"
    by (subst set_temperature_seq, subst (4) set_temperature_seq)
      (simp add: only_high only_low only_target split: if_splits)
next
  assume "\<not> truthy (target_temp_high kw) \<and> \<not> truthy (target_temp_low kw) \<and> \<not> truthy (temperature kw)"
  then show "async_set_temperature c kw w = (Inr (), w)"
    by (simp add: async_set_temperature_def)
next
  fix evs
  assume a: "trace (snd (async_set_temperature c kw w)) = trace w @ evs
        \<and> (Call (SetCoolingSetpoint 0) \<in> set evs \<or> Call (SetHeatingSetpoint 0) \<in> set evs)"
  have "prefix (trace (snd (async_set_temperature c kw w)))
          (trace w @ written (planned_writes (attr_hvac_mode (ent w)) kw))"
    using set_temperature_trace by blast
  with a have "prefix evs (written (planned_writes (attr_hvac_mode (ent w)) kw))"
    by simp
  then have "set evs \<subseteq> set (written (planned_writes (attr_hvac_mode (ent w)) kw))"
    by (rule set_mono_prefix)
  with a have "SetCoolingSetpoint 0 \<in> set (planned_writes (attr_hvac_mode (ent w)) kw)
      \<or> SetHeatingSetpoint 0 \<in> set (planned_writes (attr_hvac_mode (ent w)) kw)"
    using Call_in_written by blast
  then show "\<exists>x \<in> set [target_temp_high kw, target_temp_low kw, temperature kw].
         \<exists>r. x = Some (PyFloat r) \<and> r \<noteq> 0 \<and> - 1 < r \<and> r < 1"
    by (rule zero_planned)
qed

text \<open>
  A targetHigh of 0 next to a target of 72 is the call with the target alone, and likewise
  for a targetLow of 0.0 and a target of 0; a call with the fields 0, 0.0 and \<^verbatim>\<open>None\<close>
  leaves the world as it is; the write of the setpoint 0 for the target 0.5 comes from a
  fraction.
\<close>

theorem set_temperature_falsy_field_witness:
  "\<not> truthy (Some (PyInt 0)) \<and> \<not> truthy (Some (PyFloat 0)) \<and> \<not> truthy None \<and>
   async_set_temperature sim_client
     \<lparr>target_temp_high = Some (PyInt 0), target_temp_low = None, temperature = Some (PyInt 72)\<rparr>
     (world0 dev0) =
   async_set_temperature sim_client
     \<lparr>target_temp_high = None, target_temp_low = None, temperature = Some (PyInt 72)\<rparr>
     (world0 dev0) \<and>
   async_set_temperature sim_client
     \<lparr>target_temp_high = Some (PyInt 78), target_temp_low = Some (PyFloat 0), temperature = None\<rparr>
     (world0 dev0) =
   async_set_temperature sim_client
     \<lparr>target_temp_high = Some (PyInt 78), target_temp_low = None, temperature = None\<rparr>
     (world0 dev0) \<and>
   async_set_temperature sim_client
     \<lparr>target_temp_high = Some (PyInt 78), target_temp_low = None, temperature = Some (PyInt 0)\<rparr>
     (world0 dev0) =
   async_set_temperature sim_client
     \<lparr>target_temp_high = Some (PyInt 78), target_temp_low = None, temperature = None\<rparr>
     (world0 dev0) \<and>
   async_set_temperature sim_client
     \<lparr>target_temp_high = Some (PyInt 0), target_temp_low = Some (PyFloat 0), temperature = None\<rparr>
     (world0 dev0) = (Inr (), world0 dev0) \<and>
   trace (snd (async_set_temperature sim_client
     \<lparr>target_temp_high = None, target_temp_low = None, temperature = Some (PyFloat (1/2))\<rparr>
     (world0 dev0))) = trace (world0 dev0) @ [Call (SetCoolingSetpoint 0), WriteHaState] \<and>
   (\<exists>x \<in> set [None, None, Some (PyFloat (1/2))].
      \<exists>r. x = Some (PyFloat r) \<and> r \<noteq> 0 \<and> - 1 < r \<and> r < 1)"
proof -
  let ?k1 = "\<lparr>target_temp_high = Some (PyInt 0), target_temp_low = None,
              temperature = Some (PyInt 72)\<rparr>"
  let ?k2 = "\<lparr>target_temp_high = Some (PyInt 0), target_temp_low = Some (PyFloat 0),
              temperature = None\<rparr>"
  let ?k3 = "\<lparr>target_temp_high = Some (PyInt 78), target_temp_low = Some (PyFloat 0),
              temperature = None\<rparr>"
  let ?k4 = "\<lparr>target_temp_high = Some (PyInt 78), target_temp_low = None,
              temperature = Some (PyInt 0)\<rparr>"
  let ?k5 = "\<lparr>target_temp_high = None, target_temp_low = None,
              temperature = Some (PyFloat (1/2))\<rparr>"
  have f: "\<not> truthy (target_temp_high ?k1)"
    "\<not> truthy (target_temp_high ?k2) \<and> \<not> truthy (target_temp_low ?k2) \<and> \<not> truthy (temperature ?k2)"
    "\<not> truthy (target_temp_low ?k3)" "\<not> truthy (temperature ?k4)"
    by simp_all
  have t: "trace (snd (async_set_temperature sim_client ?k5 (world0 dev0)))
             = trace (world0 dev0) @ [Call (SetCoolingSetpoint 0), WriteHaState]
           \<and> (Call (SetCoolingSetpoint 0) \<in> set [Call (SetCoolingSetpoint 0), WriteHaState]
                \<or> Call (SetHeatingSetpoint 0) \<in> set [Call (SetCoolingSetpoint 0), WriteHaState])"
    by (simp add: sim_eval floor_eq_iff)
  from set_temperature_falsy_field [of ?k1 sim_client "world0 dev0"] f(1)
  have a: "async_set_temperature sim_client ?k1 (world0 dev0)
             = async_set_temperature sim_client (?k1\<lparr>target_temp_high := None\<rparr>) (world0 dev0)"
    by blast
  from set_temperature_falsy_field [of ?k2 sim_client "world0 dev0"] f(2)
  have b: "async_set_temperature sim_client ?k2 (world0 dev0) = (Inr (), world0 dev0)"
    by blast
  from set_temperature_falsy_field [of ?k3 sim_client "world0 dev0"] f(3)
  have c: "async_set_temperature sim_client ?k3 (world0 dev0)
             = async_set_temperature sim_client (?k3\<lparr>target_temp_low := None\<rparr>) (world0 dev0)"
    by blast
  from set_temperature_falsy_field [of ?k4 sim_client "world0 dev0"] f(4)
  have d: "async_set_temperature sim_client ?k4 (world0 dev0)
             = async_set_temperature sim_client (?k4\<lparr>temperature := None\<rparr>) (world0 dev0)"
    by blast
  from set_temperature_falsy_field [of ?k5 sim_client "world0 dev0"] t
  have e: "\<exists>x \<in> set [target_temp_high ?k5, target_temp_low ?k5, temperature ?k5].
             \<exists>r. x = Some (PyFloat r) \<and> r \<noteq> 0 \<and> - 1 < r \<and> r < 1"
    by blast
  from a b c d e t show ?thesis
    by simp
qed

text \<open>
  C10 as stated fails: the target 0.5 passes the presence test and is truncated to 0, and
  the setpoint 0 is written to the device and stored.
\<close>

theorem set_temperature_zero_setpoint_counterexample:
  "truthy (Some (PyFloat (1/2))) \<and>
   async_set_temperature sim_client
     \<lparr>target_temp_high = None, target_temp_low = None, temperature = Some (PyFloat (1/2))\<rparr>
     (world0 dev0) =
     (Inr (), \<lparr>ent = ent0\<lparr>attr_target_temperature := Some 0\<rparr>,
               device = dev0\<lparr>dev_clsp := Some 0\<rparr>,
               trace = [Call (SetCoolingSetpoint 0), WriteHaState]\<rparr>)"
  by (simp add: sim_eval floor_eq_iff)

section \<open>Failed writes\<close>

text \<open>
  C7. When the device client reports failure for the write of a mutator, the mutator
  raises a DeviceWriteError and the entity's attributes are as before the call; the only
  event is the failed call, with no state-write signal. This holds for
  \<^verbatim>\<open>async_set_hvac_mode\<close>, for \<^verbatim>\<open>async_set_fan_mode\<close>, and for \<^verbatim>\<open>async_set_temperature\<close>
  when the failing write is the first one the call makes, which covers every call with a
  single field.
\<close>

theorem mutator_failure_leaves_state:
  "(\<not> fst (client_set_hvac_mode c (device_mode_string m) (device w)) \<longrightarrow>
      fst (async_set_hvac_mode c m w) = Inl (HomeAssistantError ''failed_to_set_hvac_mode'' [])
      \<and> DeviceWriteError (HomeAssistantError ''failed_to_set_hvac_mode'' [])
      \<and> ent (snd (async_set_hvac_mode c m w)) = ent w
      \<and> trace (snd (async_set_hvac_mode c m w))
          = trace w @ [Call (SetHvacMode (device_mode_string m))]) \<and>
   (\<not> fst (client_set_fan_mode c s (device w)) \<longrightarrow>
      fst (async_set_fan_mode c s w) = Inl (HomeAssistantError ''failed_to_set_fan_mode'' [])
      \<and> DeviceWriteError (HomeAssistantError ''failed_to_set_fan_mode'' [])
      \<and> ent (snd (async_set_fan_mode c s w)) = ent w
      \<and> trace (snd (async_set_fan_mode c s w)) = trace w @ [Call (SetFanMode s)]) \<and>
   (truthy (target_temp_high kw)
      \<and> \<not> fst (client_set_cooling_setpoint c (py_int (the (target_temp_high kw))) (device w)) \<longrightarrow>
      fst (async_set_temperature c kw w) = Inl (HomeAssistantError ''failed_to_set_clsp'' [])
      \<and> DeviceWriteError (HomeAssistantError ''failed_to_set_clsp'' [])
      \<and> ent (snd (async_set_temperature c kw w)) = ent w
      \<and> trace (snd (async_set_temperature c kw w))
          = trace w @ [Call (SetCoolingSetpoint (py_int (the (target_temp_high kw))))]) \<and>
   (\<not> truthy (target_temp_high kw) \<and> truthy (target_temp_low kw)
      \<and> \<not> fst (client_set_heating_setpoint c (py_int (the (target_temp_low kw))) (device w)) \<longrightarrow>
      fst (async_set_temperature c kw w) = Inl (HomeAssistantError ''failed_to_set_htsp'' [])
      \<and> DeviceWriteError (HomeAssistantError ''failed_to_set_htsp'' [])
      \<and> ent (snd (async_set_temperature c kw w)) = ent w
      \<and> trace (snd (async_set_temperature c kw w))
          = trace w @ [Call (SetHeatingSetpoint (py_int (the (target_temp_low kw))))]) \<and>
   (\<not> truthy (target_temp_high kw) \<and> \<not> truthy (target_temp_low kw) \<and> truthy (temperature kw)
      \<and> \<not> fst (target_op c (attr_hvac_mode (ent w)) (py_int (the (temperature kw))) (device w)) \<longrightarrow>
      fst (async_set_temperature c kw w) = Inl (HomeAssistantError ''failed_to_set_temp'' [])
      \<and> DeviceWriteError (HomeAssistantError ''failed_to_set_temp'' [])
      \<and> ent (snd (async_set_temperature c kw w)) = ent w
      \<and> trace (snd (async_set_temperature c kw w))
          = trace w @ [Call (target_write (attr_hvac_mode (ent w)) (py_int (the (temperature kw))))])"
  apply (intro conjI impI)
                     apply (cases "m = HVACMode_HEAT_COOL";
      simp add: async_set_hvac_mode_def device_mode_string_def invoke_eq Let_def)
                      apply (simp add: DeviceWriteError_def)
                     apply (cases "m = HVACMode_HEAT_COOL";
      simp add: async_set_hvac_mode_def device_mode_string_def invoke_eq Let_def)
                    apply (cases "m = HVACMode_HEAT_COOL";
      simp add: async_set_hvac_mode_def device_mode_string_def invoke_eq Let_def)
                   apply (simp_all add: async_set_fan_mode_def invoke_eq Let_def DeviceWriteError_def)
             apply (subst set_temperature_seq, simp only: only_high only_low only_target, simp)+
  done

text \<open>
  The five failures on a device that rejects the calls concerned: each raises its error
  and leaves the entity as it was.
\<close>

theorem mutator_failure_leaves_state_witness:
  "fst (async_set_hvac_mode sim_client HVACMode_HEAT_COOL
          (world_in_mode HVACMode_COOL (dev0\<lparr>dev_rejects := [SetHvacMode ''auto'']\<rparr>)))
     = Inl (HomeAssistantError ''failed_to_set_hvac_mode'' []) \<and>
   ent (snd (async_set_hvac_mode sim_client HVACMode_HEAT_COOL
          (world_in_mode HVACMode_COOL (dev0\<lparr>dev_rejects := [SetHvacMode ''auto'']\<rparr>))))
     = ent0\<lparr>attr_hvac_mode := Some HVACMode_COOL\<rparr> \<and>
   fst (async_set_fan_mode sim_client ''low''
          (world_in_mode HVACMode_COOL (dev0\<lparr>dev_rejects := [SetFanMode ''low'']\<rparr>)))
     = Inl (HomeAssistantError ''failed_to_set_fan_mode'' []) \<and>
   ent (snd (async_set_fan_mode sim_client ''low''
          (world_in_mode HVACMode_COOL (dev0\<lparr>dev_rejects := [SetFanMode ''low'']\<rparr>))))
     = ent0\<lparr>attr_hvac_mode := Some HVACMode_COOL\<rparr> \<and>
   ent (snd (async_set_temperature sim_client
          \<lparr>target_temp_high = Some (PyInt 78), target_temp_low = None, temperature = None\<rparr>
          (world_in_mode HVACMode_COOL (dev0\<lparr>dev_rejects := [SetCoolingSetpoint 78]\<rparr>))))
     = ent0\<lparr>attr_hvac_mode := Some HVACMode_COOL\<rparr> \<and>
   ent (snd (async_set_temperature sim_client
          \<lparr>target_temp_high = None, target_temp_low = Some (PyInt 66), temperature = None\<rparr>
          (world_in_mode HVACMode_COOL (dev0\<lparr>dev_rejects := [SetHeatingSetpoint 66]\<rparr>))))
     = ent0\<lparr>attr_hvac_mode := Some HVACMode_COOL\<rparr> \<and>
   ent (snd (async_set_temperature sim_client
          \<lparr>target_temp_high = None, target_temp_low = None, temperature = Some (PyInt 78)\<rparr>
          (world_in_mode HVACMode_COOL (dev0\<lparr>dev_rejects := [SetCoolingSetpoint 78]\<rparr>))))
     = ent0\<lparr>attr_hvac_mode := Some HVACMode_COOL\<rparr>"
proof -
  let ?kh = "\<lparr>target_temp_high = Some (PyInt 78), target_temp_low = None, temperature = None\<rparr>"
  let ?kl = "\<lparr>target_temp_high = None, target_temp_low = Some (PyInt 66), temperature = None\<rparr>"
  let ?kt = "\<lparr>target_temp_high = None, target_temp_low = None, temperature = Some (PyInt 78)\<rparr>"
  let ?wm = "world_in_mode HVACMode_COOL (dev0\<lparr>dev_rejects := [SetHvacMode ''auto'']\<rparr>)"
  let ?wf = "world_in_mode HVACMode_COOL (dev0\<lparr>dev_rejects := [SetFanMode ''low'']\<rparr>)"
  let ?wc = "world_in_mode HVACMode_COOL (dev0\<lparr>dev_rejects := [SetCoolingSetpoint 78]\<rparr>)"
  let ?wh = "world_in_mode HVACMode_COOL (dev0\<lparr>dev_rejects := [SetHeatingSetpoint 66]\<rparr>)"
  have h1: "\<not> fst (client_set_hvac_mode sim_client (device_mode_string HVACMode_HEAT_COOL) (device ?wm))"
    by (simp add: sim_defs device_mode_string_def)
  have h2: "\<not> fst (client_set_fan_mode sim_client ''low'' (device ?wf))"
    by (simp add: sim_defs)
  have h3: "truthy (target_temp_high ?kh)
      \<and> \<not> fst (client_set_cooling_setpoint sim_client (py_int (the (target_temp_high ?kh))) (device ?wc))"
    by (simp add: sim_defs)
  have h4: "\<not> truthy (target_temp_high ?kl) \<and> truthy (target_temp_low ?kl)
      \<and> \<not> fst (client_set_heating_setpoint sim_client (py_int (the (target_temp_low ?kl))) (device ?wh))"
    by (simp add: sim_defs)
  have h5: "\<not> truthy (target_temp_high ?kt) \<and> \<not> truthy (target_temp_low ?kt) \<and> truthy (temperature ?kt)
      \<and> \<not> fst (target_op sim_client (attr_hvac_mode (ent ?wc)) (py_int (the (temperature ?kt))) (device ?wc))"
    by (simp add: sim_defs target_op_def)
  from mutator_failure_leaves_state [of sim_client HVACMode_HEAT_COOL ?wm "''low''" ?kh] h1
  have c1: "fst (async_set_hvac_mode sim_client HVACMode_HEAT_COOL ?wm)
              = Inl (HomeAssistantError ''failed_to_set_hvac_mode'' [])
            \<and> ent (snd (async_set_hvac_mode sim_client HVACMode_HEAT_COOL ?wm)) = ent ?wm"
    by blast
  from mutator_failure_leaves_state [of sim_client HVACMode_HEAT_COOL ?wf "''low''" ?kh] h2
  have c2: "fst (async_set_fan_mode sim_client ''low'' ?wf)
              = Inl (HomeAssistantError ''failed_to_set_fan_mode'' [])
            \<and> ent (snd (async_set_fan_mode sim_client ''low'' ?wf)) = ent ?wf"
    by blast
  from mutator_failure_leaves_state [of sim_client HVACMode_HEAT_COOL ?wc "''low''" ?kh] h3
  have c3: "ent (snd (async_set_temperature sim_client ?kh ?wc)) = ent ?wc"
    by blast
  from mutator_failure_leaves_state [of sim_client HVACMode_HEAT_COOL ?wh "''low''" ?kl] h4
  have c4: "ent (snd (async_set_temperature sim_client ?kl ?wh)) = ent ?wh"
    by blast
  from mutator_failure_leaves_state [of sim_client HVACMode_HEAT_COOL ?wc "''low''" ?kt] h5
  have c5: "ent (snd (async_set_temperature sim_client ?kt ?wc)) = ent ?wc"
    by blast
  from c1 c2 c3 c4 c5 show ?thesis
    by (simp add: world_in_mode_def)
qed


text \<open>
  C8. In a call of \<^verbatim>\<open>async_set_temperature\<close> with several fields, when the write of an
  earlier field succeeds and the write of a later field fails, the call raises the
  DeviceWriteError of the later field, the attribute stored for the earlier field stays
  stored, and no further device call is made: the remaining fields are abandoned. The four
  cases, in the source's order high, low, target, are: high stored and low fails; high
  stored, low absent and target fails; low stored and target fails; high and low stored
  and target fails.
\<close>

theorem set_temperature_partial_failure:
  "(truthy (target_temp_high kw) \<and> truthy (target_temp_low kw)
      \<and> client_set_cooling_setpoint c (py_int (the (target_temp_high kw))) (device w) = (True, d1)
      \<and> client_set_heating_setpoint c (py_int (the (target_temp_low kw))) d1 = (False, d2) \<longrightarrow>
      async_set_temperature c kw w =
        (Inl (HomeAssistantError ''failed_to_set_htsp'' []),
         \<lparr>ent = (ent w)\<lparr>attr_target_temperature_high := Some (py_int (the (target_temp_high kw)))\<rparr>,
          device = d2,
          trace = trace w @ [Call (SetCoolingSetpoint (py_int (the (target_temp_high kw)))), WriteHaState,
                             Call (SetHeatingSetpoint (py_int (the (target_temp_low kw))))]\<rparr>)) \<and>
   (truthy (target_temp_high kw) \<and> \<not> truthy (target_temp_low kw) \<and> truthy (temperature kw)
      \<and> client_set_cooling_setpoint c (py_int (the (target_temp_high kw))) (device w) = (True, d1)
      \<and> target_op c (attr_hvac_mode (ent w)) (py_int (the (temperature kw))) d1 = (False, d2) \<longrightarrow>
      async_set_temperature c kw w =
        (Inl (HomeAssistantError ''failed_to_set_temp'' []),
         \<lparr>ent = (ent w)\<lparr>attr_target_temperature_high := Some (py_int (the (target_temp_high kw)))\<rparr>,
          device = d2,
          trace = trace w @ [Call (SetCoolingSetpoint (py_int (the (target_temp_high kw)))), WriteHaState,
                             Call (target_write (attr_hvac_mode (ent w)) (py_int (the (temperature kw))))]\<rparr>)) \<and>
   (\<not> truthy (target_temp_high kw) \<and> truthy (target_temp_low kw) \<and> truthy (temperature kw)
      \<and> client_set_heating_setpoint c (py_int (the (target_temp_low kw))) (device w) = (True, d1)
      \<and> target_op c (attr_hvac_mode (ent w)) (py_int (the (temperature kw))) d1 = (False, d2) \<longrightarrow>
      async_set_temperature c kw w =
        (Inl (HomeAssistantError ''failed_to_set_temp'' []),
         \<lparr>ent = (ent w)\<lparr>attr_target_temperature_low := Some (py_int (the (target_temp_low kw)))\<rparr>,
          device = d2,
          trace = trace w @ [Call (SetHeatingSetpoint (py_int (the (target_temp_low kw)))), WriteHaState,
                             Call (target_write (attr_hvac_mode (ent w)) (py_int (the (temperature kw))))]\<rparr>)) \<and>
   (truthy (target_temp_high kw) \<and> truthy (target_temp_low kw) \<and> truthy (temperature kw)
      \<and> client_set_cooling_setpoint c (py_int (the (target_temp_high kw))) (device w) = (True, d1)
      \<and> client_set_heating_setpoint c (py_int (the (target_temp_low kw))) d1 = (True, d2)
      \<and> target_op c (attr_hvac_mode (ent w)) (py_int (the (temperature kw))) d2 = (False, d3) \<longrightarrow>
      async_set_temperature c kw w =
        (Inl (HomeAssistantError ''failed_to_set_temp'' []),
         \<lparr>ent = (ent w)\<lparr>attr_target_temperature_high := Some (py_int (the (target_temp_high kw))),
                        attr_target_temperature_low := Some (py_int (the (target_temp_low kw)))\<rparr>,
          device = d3,
          trace = trace w @ [Call (SetCoolingSetpoint (py_int (the (target_temp_high kw)))), WriteHaState,
                             Call (SetHeatingSetpoint (py_int (the (target_temp_low kw)))), WriteHaState,
                             Call (target_write (attr_hvac_mode (ent w)) (py_int (the (temperature kw))))]\<rparr>)) \<and>
   DeviceWriteError (HomeAssistantError ''failed_to_set_htsp'' []) \<and>
   DeviceWriteError (HomeAssistantError ''failed_to_set_temp'' [])"
  apply (intro conjI impI)
       apply (subst set_temperature_seq, simp only: only_high only_low only_target, simp)
      apply (subst set_temperature_seq, simp only: only_high only_low only_target, simp)
     apply (subst set_temperature_seq, simp only: only_high only_low only_target, simp)
    apply (subst set_temperature_seq, simp only: only_high only_low only_target, simp)
   apply (simp_all add: DeviceWriteError_def)
  done

text \<open>
  In mode cool, with targetHigh 78, targetLow 66 and target 72: on a device that rejects
  the heating setpoint 66 the high attribute is stored, the call fails on targetLow and
  the target is never written; on a device that rejects the cooling setpoint 72 both
  the high and the low attribute are stored and the call fails on the target.
\<close>

theorem set_temperature_partial_failure_witness:
  "async_set_temperature sim_client
     \<lparr>target_temp_high = Some (PyInt 78), target_temp_low = Some (PyInt 66),
      temperature = Some (PyInt 72)\<rparr>
     (world_in_mode HVACMode_COOL (dev0\<lparr>dev_rejects := [SetHeatingSetpoint 66]\<rparr>)) =
     (Inl (HomeAssistantError ''failed_to_set_htsp'' []),
      \<lparr>ent = ent0\<lparr>attr_target_temperature_high := Some 78, attr_hvac_mode := Some HVACMode_COOL\<rparr>,
       device = dev0\<lparr>dev_clsp := Some 78, dev_rejects := [SetHeatingSetpoint 66]\<rparr>,
       trace = [Call (SetCoolingSetpoint 78), WriteHaState, Call (SetHeatingSetpoint 66)]\<rparr>) \<and>
   async_set_temperature sim_client
     \<lparr>target_temp_high = Some (PyInt 78), target_temp_low = Some (PyInt 66),
      temperature = Some (PyInt 72)\<rparr>
     (world_in_mode HVACMode_COOL (dev0\<lparr>dev_rejects := [SetCoolingSetpoint 72]\<rparr>)) =
     (Inl (HomeAssistantError ''failed_to_set_temp'' []),
      \<lparr>ent = ent0\<lparr>attr_target_temperature_high := Some 78, attr_target_temperature_low := Some 66,
                   attr_hvac_mode := Some HVACMode_COOL\<rparr>,
       device = dev0\<lparr>dev_htsp := Some 66, dev_clsp := Some 78, dev_rejects := [SetCoolingSetpoint 72]\<rparr>,
       trace = [Call (SetCoolingSetpoint 78), WriteHaState, Call (SetHeatingSetpoint 66), WriteHaState,
                Call (SetCoolingSetpoint 72)]\<rparr>) \<and>
   async_set_temperature sim_client
     \<lparr>target_temp_high = Some (PyInt 78), target_temp_low = None, temperature = Some (PyInt 72)\<rparr>
     (world_in_mode HVACMode_COOL (dev0\<lparr>dev_rejects := [SetCoolingSetpoint 72]\<rparr>)) =
     (Inl (HomeAssistantError ''failed_to_set_temp'' []),
      \<lparr>ent = ent0\<lparr>attr_target_temperature_high := Some 78, attr_hvac_mode := Some HVACMode_COOL\<rparr>,
       device = dev0\<lparr>dev_clsp := Some 78, dev_rejects := [SetCoolingSetpoint 72]\<rparr>,
       trace = [Call (SetCoolingSetpoint 78), WriteHaState, Call (SetCoolingSetpoint 72)]\<rparr>) \<and>
   async_set_temperature sim_client
     \<lparr>target_temp_high = None, target_temp_low = Some (PyInt 66), temperature = Some (PyInt 72)\<rparr>
     (world_in_mode HVACMode_COOL (dev0\<lparr>dev_rejects := [SetCoolingSetpoint 72]\<rparr>)) =
     (Inl (HomeAssistantError ''failed_to_set_temp'' []),
      \<lparr>ent = ent0\<lparr>attr_target_temperature_low := Some 66, attr_hvac_mode := Some HVACMode_COOL\<rparr>,
       device = dev0\<lparr>dev_htsp := Some 66, dev_rejects := [SetCoolingSetpoint 72]\<rparr>,
       trace = [Call (SetHeatingSetpoint 66), WriteHaState, Call (SetCoolingSetpoint 72)]\<rparr>)"
proof -
  let ?k3 = "\<lparr>target_temp_high = Some (PyInt 78), target_temp_low = Some (PyInt 66),
              temperature = Some (PyInt 72)\<rparr>"
  let ?kh = "\<lparr>target_temp_high = Some (PyInt 78), target_temp_low = None,
              temperature = Some (PyInt 72)\<rparr>"
  let ?kl = "\<lparr>target_temp_high = None, target_temp_low = Some (PyInt 66),
              temperature = Some (PyInt 72)\<rparr>"
  let ?dh = "dev0\<lparr>dev_rejects := [SetHeatingSetpoint 66]\<rparr>"
  let ?dc = "dev0\<lparr>dev_rejects := [SetCoolingSetpoint 72]\<rparr>"
  have a: "truthy (target_temp_high ?k3) \<and> truthy (target_temp_low ?k3)
      \<and> client_set_cooling_setpoint sim_client (py_int (the (target_temp_high ?k3)))
            (device (world_in_mode HVACMode_COOL ?dh)) = (True, ?dh\<lparr>dev_clsp := Some 78\<rparr>)
      \<and> client_set_heating_setpoint sim_client (py_int (the (target_temp_low ?k3)))
            (?dh\<lparr>dev_clsp := Some 78\<rparr>) = (False, ?dh\<lparr>dev_clsp := Some 78\<rparr>)"
    by (simp add: sim_defs)
  have b: "truthy (target_temp_high ?k3) \<and> truthy (target_temp_low ?k3) \<and> truthy (temperature ?k3)
      \<and> client_set_cooling_setpoint sim_client (py_int (the (target_temp_high ?k3)))
            (device (world_in_mode HVACMode_COOL ?dc)) = (True, ?dc\<lparr>dev_clsp := Some 78\<rparr>)
      \<and> client_set_heating_setpoint sim_client (py_int (the (target_temp_low ?k3)))
            (?dc\<lparr>dev_clsp := Some 78\<rparr>) = (True, ?dc\<lparr>dev_clsp := Some 78, dev_htsp := Some 66\<rparr>)
      \<and> target_op sim_client (attr_hvac_mode (ent (world_in_mode HVACMode_COOL ?dc)))
            (py_int (the (temperature ?k3))) (?dc\<lparr>dev_clsp := Some 78, dev_htsp := Some 66\<rparr>)
          = (False, ?dc\<lparr>dev_clsp := Some 78, dev_htsp := Some 66\<rparr>)"
    by (simp add: sim_defs target_op_def)
  have c: "truthy (target_temp_high ?kh) \<and> \<not> truthy (target_temp_low ?kh) \<and> truthy (temperature ?kh)
      \<and> client_set_cooling_setpoint sim_client (py_int (the (target_temp_high ?kh)))
            (device (world_in_mode HVACMode_COOL ?dc)) = (True, ?dc\<lparr>dev_clsp := Some 78\<rparr>)
      \<and> target_op sim_client (attr_hvac_mode (ent (world_in_mode HVACMode_COOL ?dc)))
            (py_int (the (temperature ?kh))) (?dc\<lparr>dev_clsp := Some 78\<rparr>)
          = (False, ?dc\<lparr>dev_clsp := Some 78\<rparr>)"
    by (simp add: sim_defs target_op_def)
  have d: "\<not> truthy (target_temp_high ?kl) \<and> truthy (target_temp_low ?kl) \<and> truthy (temperature ?kl)
      \<and> client_set_heating_setpoint sim_client (py_int (the (target_temp_low ?kl)))
            (device (world_in_mode HVACMode_COOL ?dc)) = (True, ?dc\<lparr>dev_htsp := Some 66\<rparr>)
      \<and> target_op sim_client (attr_hvac_mode (ent (world_in_mode HVACMode_COOL ?dc)))
            (py_int (the (temperature ?kl))) (?dc\<lparr>dev_htsp := Some 66\<rparr>)
          = (False, ?dc\<lparr>dev_htsp := Some 66\<rparr>)"
    by (simp add: sim_defs target_op_def)
  note th = set_temperature_partial_failure
  from th [of ?k3 sim_client "world_in_mode HVACMode_COOL ?dh" "?dh\<lparr>dev_clsp := Some 78\<rparr>"
      "?dh\<lparr>dev_clsp := Some 78\<rparr>"] a
  have ra: "async_set_temperature sim_client ?k3 (world_in_mode HVACMode_COOL ?dh) =
        (Inl (HomeAssistantError ''failed_to_set_htsp'' []),
         \<lparr>ent = (ent (world_in_mode HVACMode_COOL ?dh))
                  \<lparr>attr_target_temperature_high := Some (py_int (the (target_temp_high ?k3)))\<rparr>,
          device = ?dh\<lparr>dev_clsp := Some 78\<rparr>,
          trace = trace (world_in_mode HVACMode_COOL ?dh)
                    @ [Call (SetCoolingSetpoint (py_int (the (target_temp_high ?k3)))), WriteHaState,
                       Call (SetHeatingSetpoint (py_int (the (target_temp_low ?k3))))]\<rparr>)"
    by blast
  from th [of ?k3 sim_client "world_in_mode HVACMode_COOL ?dc" "?dc\<lparr>dev_clsp := Some 78\<rparr>"
      "?dc\<lparr>dev_clsp := Some 78, dev_htsp := Some 66\<rparr>"
      "?dc\<lparr>dev_clsp := Some 78, dev_htsp := Some 66\<rparr>"] b
  have rb: "async_set_temperature sim_client ?k3 (world_in_mode HVACMode_COOL ?dc) =
        (Inl (HomeAssistantError ''failed_to_set_temp'' []),
         \<lparr>ent = (ent (world_in_mode HVACMode_COOL ?dc))
                  \<lparr>attr_target_temperature_high := Some (py_int (the (target_temp_high ?k3))),
                   attr_target_temperature_low := Some (py_int (the (target_temp_low ?k3)))\<rparr>,
          device = ?dc\<lparr>dev_clsp := Some 78, dev_htsp := Some 66\<rparr>,
          trace = trace (world_in_mode HVACMode_COOL ?dc)
                    @ [Call (SetCoolingSetpoint (py_int (the (target_temp_high ?k3)))), WriteHaState,
                       Call (SetHeatingSetpoint (py_int (the (target_temp_low ?k3)))), WriteHaState,
                       Call (target_write (attr_hvac_mode (ent (world_in_mode HVACMode_COOL ?dc)))
                               (py_int (the (temperature ?k3))))]\<rparr>)"
    by blast
  from th [of ?kh sim_client "world_in_mode HVACMode_COOL ?dc" "?dc\<lparr>dev_clsp := Some 78\<rparr>"
      "?dc\<lparr>dev_clsp := Some 78\<rparr>"] c
  have rc: "async_set_temperature sim_client ?kh (world_in_mode HVACMode_COOL ?dc) =
        (Inl (HomeAssistantError ''failed_to_set_temp'' []),
         \<lparr>ent = (ent (world_in_mode HVACMode_COOL ?dc))
                  \<lparr>attr_target_temperature_high := Some (py_int (the (target_temp_high ?kh)))\<rparr>,
          device = ?dc\<lparr>dev_clsp := Some 78\<rparr>,
          trace = trace (world_in_mode HVACMode_COOL ?dc)
                    @ [Call (SetCoolingSetpoint (py_int (the (target_temp_high ?kh)))), WriteHaState,
                       Call (target_write (attr_hvac_mode (ent (world_in_mode HVACMode_COOL ?dc)))
                               (py_int (the (temperature ?kh))))]\<rparr>)"
    by blast
  from th [of ?kl sim_client "world_in_mode HVACMode_COOL ?dc" "?dc\<lparr>dev_htsp := Some 66\<rparr>"
      "?dc\<lparr>dev_htsp := Some 66\<rparr>"] d
  have rd: "async_set_temperature sim_client ?kl (world_in_mode HVACMode_COOL ?dc) =
        (Inl (HomeAssistantError ''failed_to_set_temp'' []),
         \<lparr>ent = (ent (world_in_mode HVACMode_COOL ?dc))
                  \<lparr>attr_target_temperature_low := Some (py_int (the (target_temp_low ?kl)))\<rparr>,
          device = ?dc\<lparr>dev_htsp := Some 66\<rparr>,
          trace = trace (world_in_mode HVACMode_COOL ?dc)
                    @ [Call (SetHeatingSetpoint (py_int (the (target_temp_low ?kl)))), WriteHaState,
                       Call (target_write (attr_hvac_mode (ent (world_in_mode HVACMode_COOL ?dc)))
                               (py_int (the (temperature ?kl))))]\<rparr>)"
    by blast
  show ?thesis
    unfolding ra rb rc rd by (simp add: sim_defs target_write_def)
qed

section \<open>Refresh\<close>

text \<open>
  C5. During a refresh whose mode read returns a recognised mode string, the setpoint
  attributes are populated according to the parsed mode: heat reads the heating setpoint
  into the target; cool reads the cooling setpoint into the target; auto (parsed as
  heat_cool) reads the cooling setpoint into targetHigh and then the heating setpoint into
  targetLow; off reads no setpoint and leaves the three attributes absent. The attributes
  not named are absent, and the device calls of the refresh are the ones listed. This is
  the state after \<^verbatim>\<open>async_update\<close>, whether or not the following action derivation
  raises.
\<close>

theorem update_setpoint_mapping:
  assumes "client_read_current_temperature c (device w) = (cur, d1)"
      and "client_read_fan_mode c d1 = (fan, d2)"
      and "client_read_hvac_mode c d2 = (Some (mode, is_active), d3)"
  shows "(lower mode = ''heat'' \<longrightarrow>
            attr_hvac_mode (ent (snd (async_update c w))) = Some HVACMode_HEAT
            \<and> attr_target_temperature (ent (snd (async_update c w)))
                = fst (client_read_heating_setpoint c d3)
            \<and> attr_target_temperature_high (ent (snd (async_update c w))) = None
            \<and> attr_target_temperature_low (ent (snd (async_update c w))) = None
            \<and> device_calls (trace (snd (async_update c w))) =
                device_calls (trace w) @ [ReadCurrentTemperature, ReadFanMode, ReadHvacMode,
                                          ReadHeatingSetpoint, ReadHvacMode]) \<and>
         (lower mode = ''cool'' \<longrightarrow>
            attr_hvac_mode (ent (snd (async_update c w))) = Some HVACMode_COOL
            \<and> attr_target_temperature (ent (snd (async_update c w)))
                = fst (client_read_cooling_setpoint c d3)
            \<and> attr_target_temperature_high (ent (snd (async_update c w))) = None
            \<and> attr_target_temperature_low (ent (snd (async_update c w))) = None
            \<and> device_calls (trace (snd (async_update c w))) =
                device_calls (trace w) @ [ReadCurrentTemperature, ReadFanMode, ReadHvacMode,
                                          ReadCoolingSetpoint, ReadHvacMode]) \<and>
         (lower mode = ''auto'' \<longrightarrow>
            attr_hvac_mode (ent (snd (async_update c w))) = Some HVACMode_HEAT_COOL
            \<and> attr_target_temperature (ent (snd (async_update c w))) = None
            \<and> attr_target_temperature_high (ent (snd (async_update c w)))
                = fst (client_read_cooling_setpoint c d3)
            \<and> attr_target_temperature_low (ent (snd (async_update c w)))
                = fst (client_read_heating_setpoint c (snd (client_read_cooling_setpoint c d3)))
            \<and> device_calls (trace (snd (async_update c w))) =
                device_calls (trace w) @ [ReadCurrentTemperature, ReadFanMode, ReadHvacMode,
                                          ReadCoolingSetpoint, ReadHeatingSetpoint, ReadHvacMode]) \<and>
         (lower mode = ''off'' \<longrightarrow>
            attr_hvac_mode (ent (snd (async_update c w))) = Some HVACMode_OFF
            \<and> attr_target_temperature (ent (snd (async_update c w))) = None
            \<and> attr_target_temperature_high (ent (snd (async_update c w))) = None
            \<and> attr_target_temperature_low (ent (snd (async_update c w))) = None
            \<and> device_calls (trace (snd (async_update c w))) =
                device_calls (trace w) @ [ReadCurrentTemperature, ReadFanMode, ReadHvacMode,
                                          ReadHvacMode])"
  unfolding update_keeps_readings readings_eq [OF assms]
  by (simp add: Let_def device_calls_append)

text \<open>
  On the sample device: heat gives the heating setpoint 70 as target, cool the cooling
  setpoint 76, auto gives high 76 and low 70 and no target, and off reads no setpoint.
\<close>

theorem update_setpoint_mapping_witness:
  "attr_target_temperature (ent (snd (async_update sim_client
       (world0 (dev0\<lparr>dev_mode := Some (''Heat'', True)\<rparr>))))) = Some 70 \<and>
   attr_target_temperature (ent (snd (async_update sim_client
       (world0 (dev0\<lparr>dev_mode := Some (''COOL'', True)\<rparr>))))) = Some 76 \<and>
   attr_target_temperature_high (ent (snd (async_update sim_client (world0 dev0)))) = Some 76 \<and>
   attr_target_temperature_low (ent (snd (async_update sim_client (world0 dev0)))) = Some 70 \<and>
   attr_target_temperature (ent (snd (async_update sim_client (world0 dev0)))) = None \<and>
   device_calls (trace (snd (async_update sim_client (world0 dev0)))) =
     [ReadCurrentTemperature, ReadFanMode, ReadHvacMode, ReadCoolingSetpoint, ReadHeatingSetpoint,
      ReadHvacMode] \<and>
   device_calls (trace (snd (async_update sim_client
       (world0 (dev0\<lparr>dev_mode := Some (''off'', False)\<rparr>))))) =
     [ReadCurrentTemperature, ReadFanMode, ReadHvacMode, ReadHvacMode]"
proof -
  let ?d1 = "dev0\<lparr>dev_mode := Some (''Heat'', True)\<rparr>"
  let ?d2 = "dev0\<lparr>dev_mode := Some (''COOL'', True)\<rparr>"
  let ?d3 = "dev0\<lparr>dev_mode := Some (''off'', False)\<rparr>"
  have a: "client_read_current_temperature sim_client (device (world0 ?d1)) = (Some 72, ?d1)"
    "client_read_fan_mode sim_client ?d1 = (Some ''AUTO'', ?d1)"
    "client_read_hvac_mode sim_client ?d1 = (Some (''Heat'', True), ?d1)"
    by (simp_all add: sim_defs)
  have b: "client_read_current_temperature sim_client (device (world0 ?d2)) = (Some 72, ?d2)"
    "client_read_fan_mode sim_client ?d2 = (Some ''AUTO'', ?d2)"
    "client_read_hvac_mode sim_client ?d2 = (Some (''COOL'', True), ?d2)"
    by (simp_all add: sim_defs)
  have c: "client_read_current_temperature sim_client (device (world0 dev0)) = (Some 72, dev0)"
    "client_read_fan_mode sim_client dev0 = (Some ''AUTO'', dev0)"
    "client_read_hvac_mode sim_client dev0 = (Some (''AUTO'', True), dev0)"
    by (simp_all add: sim_defs)
  have d: "client_read_current_temperature sim_client (device (world0 ?d3)) = (Some 72, ?d3)"
    "client_read_fan_mode sim_client ?d3 = (Some ''AUTO'', ?d3)"
    "client_read_hvac_mode sim_client ?d3 = (Some (''off'', False), ?d3)"
    by (simp_all add: sim_defs)
  have l: "lower ''Heat'' = ''heat''" "lower ''COOL'' = ''cool''" "lower ''AUTO'' = ''auto''"
    "lower ''off'' = ''off''"
    by (simp_all add: eval_strings)
  from update_setpoint_mapping [OF a] update_setpoint_mapping [OF b]
    update_setpoint_mapping [OF c] update_setpoint_mapping [OF d]
  show ?thesis
    by (simp add: l sim_defs)
qed

text \<open>
  C3. The action derived in a refresh, once the readings part has succeeded and the
  device has answered the second mode read with a tuple: off when the device reports
  inactive, whatever the mode string; otherwise heating for heat, cooling for cool, off
  for off, compared case-insensitively; for auto with current temperature and targetLow
  both known, cooling if the current temperature is greater than targetLow and heating
  otherwise; for auto with one of them unknown, a DeviceReadError whose placeholders hold
  the tuple and both readings as strings.
\<close>

theorem hvac_action_derivation:
  assumes "async_update_readings c w = (Inr (), w1)"
      and "client_read_hvac_mode c (device w1) = (Some (mode, is_active), d2)"
  shows "(\<not> is_active \<longrightarrow>
            fst (async_update c w) = Inr ()
            \<and> attr_hvac_action (ent (snd (async_update c w))) = Some HVACAction_OFF) \<and>
         (is_active \<and> lower mode = ''heat'' \<longrightarrow>
            fst (async_update c w) = Inr ()
            \<and> attr_hvac_action (ent (snd (async_update c w))) = Some HVACAction_HEATING) \<and>
         (is_active \<and> lower mode = ''cool'' \<longrightarrow>
            fst (async_update c w) = Inr ()
            \<and> attr_hvac_action (ent (snd (async_update c w))) = Some HVACAction_COOLING) \<and>
         (is_active \<and> lower mode = ''off'' \<longrightarrow>
            fst (async_update c w) = Inr ()
            \<and> attr_hvac_action (ent (snd (async_update c w))) = Some HVACAction_OFF) \<and>
         (\<forall>t l. is_active \<and> lower mode = ''auto''
                 \<and> attr_current_temperature (ent w1) = Some t
                 \<and> attr_target_temperature_low (ent w1) = Some l \<longrightarrow>
            fst (async_update c w) = Inr ()
            \<and> attr_hvac_action (ent (snd (async_update c w)))
                = Some (if t > l then HVACAction_COOLING else HVACAction_HEATING)) \<and>
         (is_active \<and> lower mode = ''auto''
            \<and> (attr_current_temperature (ent w1) = None \<or> attr_target_temperature_low (ent w1) = None) \<longrightarrow>
            fst (async_update c w) =
              Inl (HomeAssistantError ''failed_to_parse_hvac_mode''
                     [(''mode_and_active'', PyModeActive mode is_active),
                      (''current_temperature'', PyStr (str_opt (attr_current_temperature (ent w1)))),
                      (''target_temperature_low'', PyStr (str_opt (attr_target_temperature_low (ent w1))))])
            \<and> DeviceReadError (HomeAssistantError ''failed_to_parse_hvac_mode''
                     [(''mode_and_active'', PyModeActive mode is_active),
                      (''current_temperature'', PyStr (str_opt (attr_current_temperature (ent w1)))),
                      (''target_temperature_low'', PyStr (str_opt (attr_target_temperature_low (ent w1))))]))"
  unfolding update_after_readings [OF assms(1)]
  using assms(2)
  by (auto simp: read_hvac_action_eq Let_def DeviceReadError_def)

text \<open>
  Auto and active with temperature 72 and low 70 gives cooling, with 68 and 70 heating;
  an inactive device gives off; active in heat, cool and off gives heating, cooling and
  off; auto and active with no temperature raises.
\<close>

theorem hvac_action_derivation_witness:
  "attr_hvac_action (ent (snd (async_update sim_client (world0 dev0)))) = Some HVACAction_COOLING \<and>
   attr_hvac_action (ent (snd (async_update sim_client (world0 (dev0\<lparr>dev_temperature := Some 68\<rparr>)))))
     = Some HVACAction_HEATING \<and>
   attr_hvac_action (ent (snd (async_update sim_client
       (world0 (dev0\<lparr>dev_mode := Some (''heat'', False)\<rparr>))))) = Some HVACAction_OFF \<and>
   attr_hvac_action (ent (snd (async_update sim_client
       (world0 (dev0\<lparr>dev_mode := Some (''Heat'', True)\<rparr>))))) = Some HVACAction_HEATING \<and>
   attr_hvac_action (ent (snd (async_update sim_client
       (world0 (dev0\<lparr>dev_mode := Some (''COOL'', True)\<rparr>))))) = Some HVACAction_COOLING \<and>
   attr_hvac_action (ent (snd (async_update sim_client
       (world0 (dev0\<lparr>dev_mode := Some (''off'', True)\<rparr>))))) = Some HVACAction_OFF \<and>
   fst (async_update sim_client (world0 (dev0\<lparr>dev_temperature := None\<rparr>))) =
     Inl (HomeAssistantError ''failed_to_parse_hvac_mode''
            [(''mode_and_active'', PyModeActive ''AUTO'' True),
             (''current_temperature'', PyStr ''None''),
             (''target_temperature_low'', PyStr ''70'')])"
proof -
  let ?d1 = "dev0\<lparr>dev_temperature := Some 68\<rparr>"
  let ?d2 = "dev0\<lparr>dev_mode := Some (''heat'', False)\<rparr>"
  let ?d3 = "dev0\<lparr>dev_temperature := None\<rparr>"
  let ?d4 = "dev0\<lparr>dev_mode := Some (''Heat'', True)\<rparr>"
  let ?d5 = "dev0\<lparr>dev_mode := Some (''COOL'', True)\<rparr>"
  let ?d6 = "dev0\<lparr>dev_mode := Some (''off'', True)\<rparr>"
  have r0: "async_update_readings sim_client (world0 dev0)
              = (Inr (), snd (async_update_readings sim_client (world0 dev0)))"
    and r1: "async_update_readings sim_client (world0 ?d1)
              = (Inr (), snd (async_update_readings sim_client (world0 ?d1)))"
    and r2: "async_update_readings sim_client (world0 ?d2)
              = (Inr (), snd (async_update_readings sim_client (world0 ?d2)))"
    and r3: "async_update_readings sim_client (world0 ?d3)
              = (Inr (), snd (async_update_readings sim_client (world0 ?d3)))"
    and r4: "async_update_readings sim_client (world0 ?d4)
              = (Inr (), snd (async_update_readings sim_client (world0 ?d4)))"
    and r5: "async_update_readings sim_client (world0 ?d5)
              = (Inr (), snd (async_update_readings sim_client (world0 ?d5)))"
    and r6: "async_update_readings sim_client (world0 ?d6)
              = (Inr (), snd (async_update_readings sim_client (world0 ?d6)))"
    by (simp_all add: update_eval)
  have m0: "client_read_hvac_mode sim_client (device (snd (async_update_readings sim_client (world0 dev0))))
              = (Some (''AUTO'', True), dev0)"
    and m1: "client_read_hvac_mode sim_client (device (snd (async_update_readings sim_client (world0 ?d1))))
              = (Some (''AUTO'', True), ?d1)"
    and m2: "client_read_hvac_mode sim_client (device (snd (async_update_readings sim_client (world0 ?d2))))
              = (Some (''heat'', False), ?d2)"
    and m3: "client_read_hvac_mode sim_client (device (snd (async_update_readings sim_client (world0 ?d3))))
              = (Some (''AUTO'', True), ?d3)"
    and m4: "client_read_hvac_mode sim_client (device (snd (async_update_readings sim_client (world0 ?d4))))
              = (Some (''Heat'', True), ?d4)"
    and m5: "client_read_hvac_mode sim_client (device (snd (async_update_readings sim_client (world0 ?d5))))
              = (Some (''COOL'', True), ?d5)"
    and m6: "client_read_hvac_mode sim_client (device (snd (async_update_readings sim_client (world0 ?d6))))
              = (Some (''off'', True), ?d6)"
    by (simp_all add: update_eval)
  have e0: "ent (snd (async_update_readings sim_client (world0 dev0))) =
              ent0\<lparr>attr_current_temperature := Some 72, attr_fan_mode := Some ''auto'',
                   attr_target_temperature_high := Some 76, attr_target_temperature_low := Some 70,
                   attr_hvac_mode := Some HVACMode_HEAT_COOL\<rparr>"
    and e1: "ent (snd (async_update_readings sim_client (world0 ?d1))) =
              ent0\<lparr>attr_current_temperature := Some 68, attr_fan_mode := Some ''auto'',
                   attr_target_temperature_high := Some 76, attr_target_temperature_low := Some 70,
                   attr_hvac_mode := Some HVACMode_HEAT_COOL\<rparr>"
    and e3: "ent (snd (async_update_readings sim_client (world0 ?d3))) =
              ent0\<lparr>attr_current_temperature := None, attr_fan_mode := Some ''auto'',
                   attr_target_temperature_high := Some 76, attr_target_temperature_low := Some 70,
                   attr_hvac_mode := Some HVACMode_HEAT_COOL\<rparr>"
    by (simp_all add: update_eval)
  have l: "lower ''AUTO'' = ''auto''" "lower ''Heat'' = ''heat''" "lower ''COOL'' = ''cool''"
    "lower ''off'' = ''off''"
    by (simp_all add: eval_strings)
  from hvac_action_derivation [OF r0 m0] hvac_action_derivation [OF r1 m1]
    hvac_action_derivation [OF r2 m2] hvac_action_derivation [OF r3 m3]
    hvac_action_derivation [OF r4 m4] hvac_action_derivation [OF r5 m5]
    hvac_action_derivation [OF r6 m6]
  show ?thesis
    unfolding e0 e1 e3 by (simp add: l ent0_def str_eval)
qed

text \<open>
  C4, as amended. A refresh raises a DeviceReadError whenever the device client returns no
  mode/activity tuple at the mode read, or returns a mode string that is not one of heat,
  cool, auto and off compared case-insensitively, and in the second case the error holds
  the raw mode string; the readings part of the refresh raises in exactly these two cases.
  The refresh as a whole raises in more cases than the claim allows: after successful
  readings it raises exactly when the action derivation does, that is when its own mode
  read returns no tuple, or reports the device active with an unrecognised mode string, or
  active in auto with the current temperature or targetLow unknown. Every error of a
  refresh is a DeviceReadError.
\<close>

theorem update_raises:
  assumes "client_read_current_temperature c (device w) = (cur, d1)"
      and "client_read_fan_mode c d1 = (fan, d2)"
      and "client_read_hvac_mode c d2 = (ma, d3)"
  shows "(ma = None \<longrightarrow>
            fst (async_update c w) = Inl (HomeAssistantError ''failed_to_read_hvac_mode'' [])) \<and>
         (\<forall>mode is_active. ma = Some (mode, is_active) \<and> \<not> recognised_mode mode \<longrightarrow>
            fst (async_update c w) =
              Inl (HomeAssistantError ''failed_to_parse_hvac_mode'' [(''mode'', PyStr mode)])) \<and>
         (isl (fst (async_update_readings c w)) \<longleftrightarrow>
            ma = None \<or> (\<exists>mode is_active. ma = Some (mode, is_active) \<and> \<not> recognised_mode mode)) \<and>
         (\<forall>w1. async_update_readings c w = (Inr (), w1) \<longrightarrow>
            (isl (fst (async_update c w)) \<longleftrightarrow>
               (case fst (client_read_hvac_mode c (device w1)) of
                  None \<Rightarrow> True
                | Some (mode, is_active) \<Rightarrow>
                    is_active \<and> (\<not> recognised_mode mode
                      \<or> lower mode = ''auto''
                         \<and> (attr_current_temperature (ent w1) = None
                              \<or> attr_target_temperature_low (ent w1) = None))))) \<and>
         (\<forall>e. fst (async_update c w) = Inl e \<longrightarrow> DeviceReadError e)"
proof (intro conjI allI impI)
  assume "ma = None"
  then show "fst (async_update c w) = Inl (HomeAssistantError ''failed_to_read_hvac_mode'' [])"
    using readings_eq [OF assms] by (simp add: async_update_def Let_def)
next
  fix mode is_active
  assume "ma = Some (mode, is_active) \<and> \<not> recognised_mode mode"
  then show "fst (async_update c w) =
      Inl (HomeAssistantError ''failed_to_parse_hvac_mode'' [(''mode'', PyStr mode)])"
    using readings_eq [OF assms] by (simp add: async_update_def Let_def recognised_mode_def)
next
  show "isl (fst (async_update_readings c w)) \<longleftrightarrow>
      ma = None \<or> (\<exists>mode is_active. ma = Some (mode, is_active) \<and> \<not> recognised_mode mode)"
    unfolding readings_eq [OF assms]
    by (auto simp: Let_def recognised_mode_def split: option.splits)
next
  fix w1
  assume r: "async_update_readings c w = (Inr (), w1)"
  show "isl (fst (async_update c w)) \<longleftrightarrow>
      (case fst (client_read_hvac_mode c (device w1)) of
         None \<Rightarrow> True
       | Some (mode, is_active) \<Rightarrow>
           is_active \<and> (\<not> recognised_mode mode
             \<or> lower mode = ''auto''
                \<and> (attr_current_temperature (ent w1) = None
                     \<or> attr_target_temperature_low (ent w1) = None)))"
    unfolding update_after_readings [OF r] action_raises_iff [symmetric]
    by (simp split: sum.splits)
next
  fix e
  assume "fst (async_update c w) = Inl e"
  then show "DeviceReadError e"
    by (rule update_errors_are_read_errors)
qed


text \<open>
  The mode string FROST raises with the raw string; no tuple raises as well; with the mode
  AUTO the readings succeed, and the refresh raises when the temperature is unknown and
  succeeds when it is known.
\<close>

theorem update_raises_witness:
  "\<not> recognised_mode ''FROST'' \<and>
   fst (async_update sim_client (world0 (dev0\<lparr>dev_mode := Some (''FROST'', True)\<rparr>))) =
     Inl (HomeAssistantError ''failed_to_parse_hvac_mode'' [(''mode'', PyStr ''FROST'')]) \<and>
   DeviceReadError (HomeAssistantError ''failed_to_parse_hvac_mode'' [(''mode'', PyStr ''FROST'')]) \<and>
   fst (async_update sim_client (world0 (dev0\<lparr>dev_mode := None\<rparr>))) =
     Inl (HomeAssistantError ''failed_to_read_hvac_mode'' []) \<and>
   isl (fst (async_update_readings sim_client (world0 (dev0\<lparr>dev_mode := None\<rparr>)))) \<and>
   \<not> isl (fst (async_update_readings sim_client (world0 (dev0\<lparr>dev_temperature := None\<rparr>)))) \<and>
   isl (fst (async_update sim_client (world0 (dev0\<lparr>dev_temperature := None\<rparr>)))) \<and>
   \<not> isl (fst (async_update sim_client (world0 dev0)))"
proof -
  let ?d1 = "dev0\<lparr>dev_mode := Some (''FROST'', True)\<rparr>"
  let ?d2 = "dev0\<lparr>dev_mode := None\<rparr>"
  let ?d3 = "dev0\<lparr>dev_temperature := None\<rparr>"
  have a1: "client_read_current_temperature sim_client (device (world0 ?d1)) = (Some 72, ?d1)"
    and a2: "client_read_fan_mode sim_client ?d1 = (Some ''AUTO'', ?d1)"
    and a3: "client_read_hvac_mode sim_client ?d1 = (Some (''FROST'', True), ?d1)"
    by (simp_all add: sim_defs)
  have b1: "client_read_current_temperature sim_client (device (world0 ?d2)) = (Some 72, ?d2)"
    and b2: "client_read_fan_mode sim_client ?d2 = (Some ''AUTO'', ?d2)"
    and b3: "client_read_hvac_mode sim_client ?d2 = (None, ?d2)"
    by (simp_all add: sim_defs)
  have c1: "client_read_current_temperature sim_client (device (world0 ?d3)) = (None, ?d3)"
    and c2: "client_read_fan_mode sim_client ?d3 = (Some ''AUTO'', ?d3)"
    and c3: "client_read_hvac_mode sim_client ?d3 = (Some (''AUTO'', True), ?d3)"
    by (simp_all add: sim_defs)
  have d1: "client_read_current_temperature sim_client (device (world0 dev0)) = (Some 72, dev0)"
    and d2: "client_read_fan_mode sim_client dev0 = (Some ''AUTO'', dev0)"
    and d3: "client_read_hvac_mode sim_client dev0 = (Some (''AUTO'', True), dev0)"
    by (simp_all add: sim_defs)
  have n: "\<not> recognised_mode ''FROST''" "recognised_mode ''AUTO''" "lower ''AUTO'' = ''auto''"
    by (simp_all add: recognised_mode_def eval_strings)
  have r3: "async_update_readings sim_client (world0 ?d3)
              = (Inr (), snd (async_update_readings sim_client (world0 ?d3)))"
    and r0: "async_update_readings sim_client (world0 dev0)
              = (Inr (), snd (async_update_readings sim_client (world0 dev0)))"
    by (simp_all add: update_eval)
  have s3: "fst (client_read_hvac_mode sim_client (device (snd (async_update_readings sim_client (world0 ?d3)))))
              = Some (''AUTO'', True)"
    "attr_current_temperature (ent (snd (async_update_readings sim_client (world0 ?d3)))) = None"
    and s0: "fst (client_read_hvac_mode sim_client (device (snd (async_update_readings sim_client (world0 dev0)))))
              = Some (''AUTO'', True)"
    "attr_current_temperature (ent (snd (async_update_readings sim_client (world0 dev0)))) = Some 72"
    "attr_target_temperature_low (ent (snd (async_update_readings sim_client (world0 dev0)))) = Some 70"
    by (simp_all add: update_eval)
  have f: "fst (async_update sim_client (world0 ?d1)) =
      Inl (HomeAssistantError ''failed_to_parse_hvac_mode'' [(''mode'', PyStr ''FROST'')])"
    using update_raises [OF a1 a2 a3] n(1) by blast
  have f': "DeviceReadError (HomeAssistantError ''failed_to_parse_hvac_mode'' [(''mode'', PyStr ''FROST'')])"
    using update_raises [OF a1 a2 a3] f by blast
  have g: "fst (async_update sim_client (world0 ?d2)) =
      Inl (HomeAssistantError ''failed_to_read_hvac_mode'' [])
      \<and> isl (fst (async_update_readings sim_client (world0 ?d2)))"
    using update_raises [OF b1 b2 b3] by blast
  have h: "\<not> isl (fst (async_update_readings sim_client (world0 ?d3)))"
    using update_raises [OF c1 c2 c3] n(2) by simp
  have i: "isl (fst (async_update sim_client (world0 ?d3)))"
    using update_raises [OF c1 c2 c3, THEN conjunct2, THEN conjunct2, THEN conjunct2, THEN conjunct1,
        rule_format, OF r3]
    by (simp add: s3 n)
  have j: "\<not> isl (fst (async_update sim_client (world0 dev0)))"
    using update_raises [OF d1 d2 d3, THEN conjunct2, THEN conjunct2, THEN conjunct2, THEN conjunct1,
        rule_format, OF r0]
    by (simp add: s0 n)
  from f f' g h i j n show ?thesis
    by simp
qed

text \<open>
  C4 as stated fails: on a device that returns the tuple (AUTO, active) and no current
  temperature, the mode string is recognised and the refresh raises a DeviceReadError all
  the same.
\<close>

theorem update_raises_counterexample:
  "client_read_hvac_mode sim_client (dev0\<lparr>dev_temperature := None\<rparr>)
     = (Some (''AUTO'', True), dev0\<lparr>dev_temperature := None\<rparr>) \<and>
   recognised_mode ''AUTO'' \<and>
   fst (async_update sim_client (world0 (dev0\<lparr>dev_temperature := None\<rparr>))) =
     Inl (HomeAssistantError ''failed_to_parse_hvac_mode''
            [(''mode_and_active'', PyModeActive ''AUTO'' True),
             (''current_temperature'', PyStr ''None''),
             (''target_temperature_low'', PyStr ''70'')]) \<and>
   DeviceReadError (HomeAssistantError ''failed_to_parse_hvac_mode''
            [(''mode_and_active'', PyModeActive ''AUTO'' True),
             (''current_temperature'', PyStr ''None''),
             (''target_temperature_low'', PyStr ''70'')])"
  by (simp add: update_eval str_eval recognised_mode_def DeviceReadError_def)

text \<open>
  C9, as amended. After every successful refresh the local mode is the one parsed from the
  device's mode string, one of heat, cool, heat_cool and off, and it determines the
  setpoint attributes: in mode heat the target holds what the device returned for the
  heating setpoint, and in mode cool what it returned for the cooling setpoint, while
  targetHigh and targetLow are absent; in mode heat_cool targetHigh holds what the device
  returned for the cooling setpoint and targetLow what it then returned for the heating
  setpoint, while the target is absent; in mode off all three are absent. What the device
  returned may be nothing, so the group that the mode selects may be absent too, and the
  other group always is.
\<close>

theorem update_setpoint_groups:
  assumes "async_update c w = (Inr (), w')"
      and "client_read_current_temperature c (device w) = (cur, d1)"
      and "client_read_fan_mode c d1 = (fan, d2)"
      and "client_read_hvac_mode c d2 = (ma, d3)"
  shows "(\<exists>mode is_active. ma = Some (mode, is_active) \<and> lower mode = ''heat'')
           \<and> attr_hvac_mode (ent w') = Some HVACMode_HEAT
           \<and> attr_target_temperature (ent w') = fst (client_read_heating_setpoint c d3)
           \<and> attr_target_temperature_high (ent w') = None
           \<and> attr_target_temperature_low (ent w') = None
         \<or> (\<exists>mode is_active. ma = Some (mode, is_active) \<and> lower mode = ''cool'')
           \<and> attr_hvac_mode (ent w') = Some HVACMode_COOL
           \<and> attr_target_temperature (ent w') = fst (client_read_cooling_setpoint c d3)
           \<and> attr_target_temperature_high (ent w') = None
           \<and> attr_target_temperature_low (ent w') = None
         \<or> (\<exists>mode is_active. ma = Some (mode, is_active) \<and> lower mode = ''auto'')
           \<and> attr_hvac_mode (ent w') = Some HVACMode_HEAT_COOL
           \<and> attr_target_temperature (ent w') = None
           \<and> attr_target_temperature_high (ent w') = fst (client_read_cooling_setpoint c d3)
           \<and> attr_target_temperature_low (ent w')
               = fst (client_read_heating_setpoint c (snd (client_read_cooling_setpoint c d3)))
         \<or> (\<exists>mode is_active. ma = Some (mode, is_active) \<and> lower mode = ''off'')
           \<and> attr_hvac_mode (ent w') = Some HVACMode_OFF
           \<and> attr_target_temperature (ent w') = None
           \<and> attr_target_temperature_high (ent w') = None
           \<and> attr_target_temperature_low (ent w') = None"
proof -
  obtain r w1 where rw: "async_update_readings c w = (r, w1)"
    by (cases "async_update_readings c w")
  with assms(1) have r: "async_update_readings c w = (Inr (), w1)"
    by (cases r) (simp_all add: async_update_def)
  have keep: "attr_hvac_mode (ent w') = attr_hvac_mode (ent w1)"
    "attr_target_temperature (ent w') = attr_target_temperature (ent w1)"
    "attr_target_temperature_high (ent w') = attr_target_temperature_high (ent w1)"
    "attr_target_temperature_low (ent w') = attr_target_temperature_low (ent w1)"
    using update_keeps_readings(1-4) [of c w] assms(1) r by simp_all
  from r readings_eq [OF assms(2) assms(3) assms(4)]
  have eq: "(Inr (), w1) =
     (let e = (ent w)\<lparr>attr_current_temperature := cur, attr_fan_mode := map_option lower fan,
                      attr_target_temperature := None, attr_target_temperature_high := None,
                      attr_target_temperature_low := None\<rparr>;
          tr = trace w @ [Call ReadCurrentTemperature, Call ReadFanMode, Call ReadHvacMode]
      in case ma of
           None \<Rightarrow> (Inl (HomeAssistantError ''failed_to_read_hvac_mode'' []),
                     \<lparr>ent = e, device = d3, trace = tr\<rparr>)
         | Some (mode, is_active) \<Rightarrow>
             if lower mode = ''heat''
             then (Inr (), \<lparr>ent = e\<lparr>attr_target_temperature := fst (client_read_heating_setpoint c d3),
                                    attr_hvac_mode := Some HVACMode_HEAT\<rparr>,
                            device = snd (client_read_heating_setpoint c d3),
                            trace = tr @ [Call ReadHeatingSetpoint]\<rparr>)
             else if lower mode = ''cool''
             then (Inr (), \<lparr>ent = e\<lparr>attr_target_temperature := fst (client_read_cooling_setpoint c d3),
                                    attr_hvac_mode := Some HVACMode_COOL\<rparr>,
                            device = snd (client_read_cooling_setpoint c d3),
                            trace = tr @ [Call ReadCoolingSetpoint]\<rparr>)
             else if lower mode = ''auto''
             then (Inr (), \<lparr>ent = e\<lparr>attr_target_temperature_high := fst (client_read_cooling_setpoint c d3),
                                    attr_target_temperature_low :=
                                      fst (client_read_heating_setpoint c (snd (client_read_cooling_setpoint c d3))),
                                    attr_hvac_mode := Some HVACMode_HEAT_COOL\<rparr>,
                            device = snd (client_read_heating_setpoint c (snd (client_read_cooling_setpoint c d3))),
                            trace = tr @ [Call ReadCoolingSetpoint, Call ReadHeatingSetpoint]\<rparr>)
             else if lower mode = ''off''
             then (Inr (), \<lparr>ent = e\<lparr>attr_hvac_mode := Some HVACMode_OFF\<rparr>, device = d3, trace = tr\<rparr>)
             else (Inl (HomeAssistantError ''failed_to_parse_hvac_mode'' [(''mode'', PyStr mode)]),
                   \<lparr>ent = e, device = d3, trace = tr\<rparr>))"
    by simp
  show ?thesis
  proof (cases ma)
    case None
    with eq show ?thesis
      by (simp add: Let_def)
  next
    case (Some p)
    obtain mode is_active where p: "p = (mode, is_active)"
      by (cases p)
    from eq Some p show ?thesis
      unfolding keep
      by (cases "lower mode = ''heat''"; cases "lower mode = ''cool''";
          cases "lower mode = ''auto''"; cases "lower mode = ''off''"; simp add: Let_def)
  qed
qed

text \<open>
  On the sample device: auto gives high 76, low 70 and no target; cool gives the target 76
  and heat the target 70, with no high and low; off gives none of the three.
\<close>

theorem update_setpoint_groups_witness:
  "attr_hvac_mode (ent (snd (async_update sim_client (world0 dev0)))) = Some HVACMode_HEAT_COOL \<and>
   attr_target_temperature (ent (snd (async_update sim_client (world0 dev0)))) = None \<and>
   attr_target_temperature_high (ent (snd (async_update sim_client (world0 dev0)))) = Some 76 \<and>
   attr_target_temperature_low (ent (snd (async_update sim_client (world0 dev0)))) = Some 70 \<and>
   attr_hvac_mode (ent (snd (async_update sim_client
      (world0 (dev0\<lparr>dev_mode := Some (''cool'', True)\<rparr>))))) = Some HVACMode_COOL \<and>
   attr_target_temperature (ent (snd (async_update sim_client
      (world0 (dev0\<lparr>dev_mode := Some (''cool'', True)\<rparr>))))) = Some 76 \<and>
   attr_target_temperature_high (ent (snd (async_update sim_client
      (world0 (dev0\<lparr>dev_mode := Some (''cool'', True)\<rparr>))))) = None \<and>
   attr_target_temperature_low (ent (snd (async_update sim_client
      (world0 (dev0\<lparr>dev_mode := Some (''cool'', True)\<rparr>))))) = None \<and>
   attr_hvac_mode (ent (snd (async_update sim_client
      (world0 (dev0\<lparr>dev_mode := Some (''Heat'', True)\<rparr>))))) = Some HVACMode_HEAT \<and>
   attr_target_temperature (ent (snd (async_update sim_client
      (world0 (dev0\<lparr>dev_mode := Some (''Heat'', True)\<rparr>))))) = Some 70 \<and>
   attr_target_temperature_high (ent (snd (async_update sim_client
      (world0 (dev0\<lparr>dev_mode := Some (''Heat'', True)\<rparr>))))) = None \<and>
   attr_target_temperature_low (ent (snd (async_update sim_client
      (world0 (dev0\<lparr>dev_mode := Some (''Heat'', True)\<rparr>))))) = None \<and>
   attr_hvac_mode (ent (snd (async_update sim_client
      (world0 (dev0\<lparr>dev_mode := Some (''off'', False)\<rparr>))))) = Some HVACMode_OFF \<and>
   attr_target_temperature (ent (snd (async_update sim_client
      (world0 (dev0\<lparr>dev_mode := Some (''off'', False)\<rparr>))))) = None \<and>
   attr_target_temperature_high (ent (snd (async_update sim_client
      (world0 (dev0\<lparr>dev_mode := Some (''off'', False)\<rparr>))))) = None \<and>
   attr_target_temperature_low (ent (snd (async_update sim_client
      (world0 (dev0\<lparr>dev_mode := Some (''off'', False)\<rparr>))))) = None"
proof -
  let ?d1 = "dev0\<lparr>dev_mode := Some (''cool'', True)\<rparr>"
  let ?d2 = "dev0\<lparr>dev_mode := Some (''Heat'', True)\<rparr>"
  let ?d3 = "dev0\<lparr>dev_mode := Some (''off'', False)\<rparr>"
  have s0: "async_update sim_client (world0 dev0) = (Inr (), snd (async_update sim_client (world0 dev0)))"
    and s1: "async_update sim_client (world0 ?d1) = (Inr (), snd (async_update sim_client (world0 ?d1)))"
    and s2: "async_update sim_client (world0 ?d2) = (Inr (), snd (async_update sim_client (world0 ?d2)))"
    and s3: "async_update sim_client (world0 ?d3) = (Inr (), snd (async_update sim_client (world0 ?d3)))"
    by (simp_all add: update_eval)
  have a: "client_read_current_temperature sim_client (device (world0 dev0)) = (Some 72, dev0)"
    "client_read_fan_mode sim_client dev0 = (Some ''AUTO'', dev0)"
    "client_read_hvac_mode sim_client dev0 = (Some (''AUTO'', True), dev0)"
    by (simp_all add: sim_defs)
  have b: "client_read_current_temperature sim_client (device (world0 ?d1)) = (Some 72, ?d1)"
    "client_read_fan_mode sim_client ?d1 = (Some ''AUTO'', ?d1)"
    "client_read_hvac_mode sim_client ?d1 = (Some (''cool'', True), ?d1)"
    by (simp_all add: sim_defs)
  have c: "client_read_current_temperature sim_client (device (world0 ?d2)) = (Some 72, ?d2)"
    "client_read_fan_mode sim_client ?d2 = (Some ''AUTO'', ?d2)"
    "client_read_hvac_mode sim_client ?d2 = (Some (''Heat'', True), ?d2)"
    by (simp_all add: sim_defs)
  have d: "client_read_current_temperature sim_client (device (world0 ?d3)) = (Some 72, ?d3)"
    "client_read_fan_mode sim_client ?d3 = (Some ''AUTO'', ?d3)"
    "client_read_hvac_mode sim_client ?d3 = (Some (''off'', False), ?d3)"
    by (simp_all add: sim_defs)
  have l: "lower ''AUTO'' = ''auto''" "lower ''cool'' = ''cool''" "lower ''Heat'' = ''heat''"
    "lower ''off'' = ''off''"
    by (simp_all add: eval_strings)
  from update_setpoint_groups [OF s0 a] update_setpoint_groups [OF s1 b]
    update_setpoint_groups [OF s2 c] update_setpoint_groups [OF s3 d]
  show ?thesis
    by (simp add: l sim_defs)
qed

text \<open>
  C9 as stated fails: a refresh in mode off succeeds and populates neither group, and so
  does a refresh in mode heat on a device that returns no heating setpoint.
\<close>

theorem update_setpoint_groups_counterexample:
  "async_update sim_client (world0 (dev0\<lparr>dev_mode := Some (''off'', False)\<rparr>)) =
     (Inr (),
      \<lparr>ent = \<lparr>attr_current_temperature = Some 72, attr_fan_mode = Some ''auto'',
              attr_target_temperature = None, attr_target_temperature_high = None,
              attr_target_temperature_low = None, attr_hvac_mode = Some HVACMode_OFF,
              attr_hvac_action = Some HVACAction_OFF\<rparr>,
       device = dev0\<lparr>dev_mode := Some (''off'', False)\<rparr>,
       trace = [Call ReadCurrentTemperature, Call ReadFanMode, Call ReadHvacMode, Call ReadHvacMode]\<rparr>) \<and>
   async_update sim_client (world0 (dev0\<lparr>dev_mode := Some (''heat'', True), dev_htsp := None\<rparr>)) =
     (Inr (),
      \<lparr>ent = \<lparr>attr_current_temperature = Some 72, attr_fan_mode = Some ''auto'',
              attr_target_temperature = None, attr_target_temperature_high = None,
              attr_target_temperature_low = None, attr_hvac_mode = Some HVACMode_HEAT,
              attr_hvac_action = Some HVACAction_HEATING\<rparr>,
       device = dev0\<lparr>dev_mode := Some (''heat'', True), dev_htsp := None\<rparr>,
       trace = [Call ReadCurrentTemperature, Call ReadFanMode, Call ReadHvacMode,
                Call ReadHeatingSetpoint, Call ReadHvacMode]\<rparr>)"
  by (simp add: update_eval)

end
